theory Spec2Isabelle
  imports Complex_Main
begin

section \<open>Python and numpy primitives used by TwoPopulationSimulation.py\<close>

text \<open>
  Python floats and the entries of numpy float arrays are modelled as real numbers: the
  arithmetic on potentials, rates and currents is exact in the model, it has no rounding,
  no \<open>inf\<close> and no \<open>nan\<close>. The number of rows \<open>int(T / delta_t)\<close> is the exception: a
  rounding there changes the shape of every array, so the model computes this quotient as
  the machine does (subsection on double precision below).
  A one-dimensional array is a list, a two-dimensional array is the list of its rows.
  Every exception the Python code can raise is a value of \<open>error\<close>; a computation that
  may raise returns \<open>error + 'a\<close>, with \<open>Inl\<close> for the exception.
\<close>

datatype error =
  TypeError | ValueError | IndexError | ZeroDivisionError | OverflowError | MemoryError

definition ebind :: "error + 'a \<Rightarrow> ('a \<Rightarrow> error + 'b) \<Rightarrow> error + 'b" where
  "ebind m f = (case m of Inl e \<Rightarrow> Inl e | Inr v \<Rightarrow> f v)"

fun emap :: "('a \<Rightarrow> error + 'b) \<Rightarrow> 'a list \<Rightarrow> error + 'b list" where
  "emap f [] = Inr []"
| "emap f (a # as) = ebind (f a) (\<lambda>b. ebind (emap f as) (\<lambda>bs. Inr (b # bs)))"

text \<open>
  \<open>a / b\<close> on two Python floats raises ZeroDivisionError when \<open>b\<close> is zero. This is the
  quotient of the exact arithmetic, used where the quotient enters a potential
  (\<open>delta_t / tau\<close>).
\<close>

definition py_truediv :: "real \<Rightarrow> real \<Rightarrow> error + real" where
  "py_truediv a b = (if b = 0 then Inl ZeroDivisionError else Inr (a / b))"

text \<open>The value of \<open>int(v)\<close> on a finite float: truncation towards zero.\<close>

definition py_int :: "real \<Rightarrow> int" where
  "py_int v = (if 0 \<le> v then \<lfloor>v\<rfloor> else \<lceil>v\<rceil>)"

subsection \<open>Double precision, for the number of rows\<close>

text \<open>
  A Python float is an IEEE binary64 number. \<open>binary64 x\<close> is the double nearest to the
  real \<open>x\<close>, ties going to the even significand: \<open>x\<close> is scaled by the power of two that
  brings it between \<open>2^52\<close> and \<open>2^53\<close>, rounded to an integer, and scaled back. A double
  is its own rounding, so a real attribute that is not a double stands for the double the
  literal denotes (\<open>0.1\<close> for 1/10). The exponent is not bounded here: a result above
  \<open>max_float\<close>, the largest finite double, is what the machine holds as \<open>inf\<close>, and the
  very small quotients, where the machine has fewer bits, truncate to 0 either way. The
  attributes \<open>T\<close> and \<open>delta_t\<close> are finite floats: \<open>inf\<close> and \<open>nan\<close> as parameters are
  outside the model, and so is a real below \<open>2^-1022\<close> in magnitude that is not a double.
  (An attribute given as a Python int below \<open>2^53\<close> is a double as well.)
\<close>

definition round_half_even :: "real \<Rightarrow> int" where
  "round_half_even y =
     (let f = \<lfloor>y\<rfloor>; d = y - of_int f
      in if d < 1 / 2 then f else if 1 / 2 < d then f + 1 else if even f then f else f + 1)"

definition binary64 :: "real \<Rightarrow> real" where
  "binary64 x =
     (if x = 0 then 0
      else let u = 2 powr (of_int \<lfloor>log 2 \<bar>x\<bar>\<rfloor> - 52)
           in of_int (round_half_even (x / u)) * u)"

definition max_float :: real where
  "max_float = (2 ^ 53 - 1) * 2 ^ 971"

text \<open>
  The value of \<open>a / b\<close> on two floats as the machine computes it: the quotient of the two
  doubles, rounded to a double.
\<close>

definition float_truediv :: "real \<Rightarrow> real \<Rightarrow> real" where
  "float_truediv a b = binary64 (binary64 a / binary64 b)"

text \<open>
  \<open>a / b\<close> on two Python floats, rounded: ZeroDivisionError when \<open>b\<close> is zero. And
  \<open>int(v)\<close> on a float: OverflowError when \<open>v\<close> is infinite.
\<close>

definition py_float_truediv :: "real \<Rightarrow> real \<Rightarrow> error + real" where
  "py_float_truediv a b =
     (if binary64 b = 0 then Inl ZeroDivisionError else Inr (float_truediv a b))"

definition py_int_of_float :: "real \<Rightarrow> error + int" where
  "py_int_of_float v = (if max_float < \<bar>v\<bar> then Inl OverflowError else Inr (py_int v))"

text \<open>
  \<open>np.zeros((k, n))\<close> on a 64-bit machine. It refuses, with ValueError, a negative
  dimension and a byte count (8 per entry, dimensions of 0 left out of the product) that
  does not fit a signed 64-bit integer. It raises MemoryError when the allocator does not
  grant the array: \<open>grants\<close>, given the number of entries, is the allocator of the
  machine. (The model asks the allocator for the two-dimensional arrays only; the vectors
  of \<open>n\<close> entries are taken to fit.)
\<close>

definition np_zeros :: "(nat \<Rightarrow> bool) \<Rightarrow> int \<Rightarrow> int \<Rightarrow> error + real list list" where
  "np_zeros grants k n =
     (if k < 0 \<or> n < 0 \<or> 2 ^ 63 \<le> 8 * max 1 k * max 1 n then Inl ValueError
      else if \<not> grants (nat (k * n)) then Inl MemoryError
      else Inr (replicate (nat k) (replicate (nat n) 0)))"

text \<open>
  \<open>np.linspace(start, stop, num)\<close> with the default \<open>endpoint=True\<close>: it refuses a
  negative \<open>num\<close>; the step is \<open>(stop - start) / (num - 1)\<close> when \<open>num - 1 > 0\<close>, and
  the last sample is overwritten by \<open>stop\<close> only when \<open>num > 1\<close>. So \<open>num = 1\<close> yields
  the single sample \<open>start\<close>.
\<close>

definition np_linspace :: "real \<Rightarrow> real \<Rightarrow> int \<Rightarrow> error + real list" where
  "np_linspace start stop num =
     (if num < 0 then Inl ValueError
      else let n = nat num;
               y = (if 1 < n
                    then map (\<lambda>i. real i * ((stop - start) / real (n - 1)) + start) [0..<n]
                    else map (\<lambda>i. real i * (stop - start) + start) [0..<n])
           in Inr (if 1 < n then y[n - 1 := stop] else y))"

text \<open>
  \<open>np.mean\<close> of a one-dimensional array. (On an empty array numpy returns \<open>nan\<close> with a
  warning; the model has no \<open>nan\<close> and the quotient is then HOL's \<open>0 / 0\<close>. Inside
  \<open>simulation\<close> such a mean is only ever multiplied into an empty array.)
\<close>

definition np_mean :: "real list \<Rightarrow> real" where
  "np_mean v = sum_list v / real (length v)"

text \<open>
  An elementwise binary operation on two one-dimensional arrays, with numpy's
  broadcasting: equal lengths, or one operand of length one; anything else raises
  ValueError.
\<close>

definition broadcast2 :: "(real \<Rightarrow> real \<Rightarrow> real) \<Rightarrow> real list \<Rightarrow> real list \<Rightarrow> error + real list" where
  "broadcast2 f u v =
     (if length u = length v then Inr (map2 f u v)
      else if length u = 1 then Inr (map (f (hd u)) v)
      else if length v = 1 then Inr (map (\<lambda>a. f a (hd v)) u)
      else Inl ValueError)"

definition broadcast_to :: "nat \<Rightarrow> real list \<Rightarrow> error + real list" where
  "broadcast_to n v =
     (if length v = n then Inr v
      else if length v = 1 then Inr (replicate n (hd v))
      else Inl ValueError)"

text \<open>
  The assignment \<open>a[i] = v\<close> (also written \<open>a[i, :] = v\<close>) to row \<open>i \<ge> 0\<close> of a
  two-dimensional array: IndexError when the row does not exist, ValueError when \<open>v\<close>
  cannot be broadcast to the row.
\<close>

definition set_row :: "real list list \<Rightarrow> nat \<Rightarrow> real list \<Rightarrow> error + real list list" where
  "set_row a i v =
     (if length a \<le> i then Inl IndexError
      else ebind (broadcast_to (length (a ! i)) v) (\<lambda>w. Inr (a[i := w])))"

subsection \<open>External collaborators\<close>

text \<open>
  The activation function \<open>g\<close> (module \<open>simulation\<close>), numpy's global random generator
  and the memory allocator of the machine are not part of the source file. They are
  parameters of the model:
  \<open>g\<close> is a function of one potential and the two shape parameters, applied elementwise;
  \<open>random_sample\<close> draws one uniform sample and \<open>binomial1\<close> one Bernoulli trial with the
  given success probability, each from a generator state \<open>'g\<close> that it returns advanced;
  \<open>allocates\<close> tells whether an array of that many entries can be allocated.
\<close>

record 'g externals =
  g :: "real \<Rightarrow> real \<Rightarrow> real \<Rightarrow> real"
  random_sample :: "'g \<Rightarrow> real \<times> 'g"
  binomial1 :: "real \<Rightarrow> 'g \<Rightarrow> bool \<times> 'g"
  allocates :: "nat \<Rightarrow> bool"

text \<open>A vectorised draw makes one draw per entry, in order, threading the generator.\<close>

fun draw_each :: "('p \<Rightarrow> 'g \<Rightarrow> 'a \<times> 'g) \<Rightarrow> 'p list \<Rightarrow> 'g \<Rightarrow> 'a list \<times> 'g" where
  "draw_each d [] gen = ([], gen)"
| "draw_each d (p # ps) gen =
     (case d p gen of (v, gen1) \<Rightarrow>
        (case draw_each d ps gen1 of (vs, gen2) \<Rightarrow> (v # vs, gen2)))"

text \<open>
  \<open>np.random.binomial(1, p)\<close> for an array \<open>p\<close> of probabilities: ValueError when some
  entry is outside \<open>[0, 1]\<close>, otherwise one trial per entry, each 0 or 1.
\<close>

definition np_random_binomial :: "'g externals \<Rightarrow> real list \<Rightarrow> 'g \<Rightarrow> error + (real list \<times> 'g)" where
  "np_random_binomial env p gen =
     (if list_all (\<lambda>q. 0 \<le> q \<and> q \<le> 1) p
      then (case draw_each (binomial1 env) p gen of
              (bs, gen1) \<Rightarrow> Inr (map (\<lambda>b. if b then 1 else 0) bs, gen1))
      else Inl ValueError)"

text \<open>\<open>np.random.uniform(0, 1, n)\<close>: \<open>n\<close> uniform samples; a negative size is refused.\<close>

definition np_random_uniform :: "'g externals \<Rightarrow> int \<Rightarrow> 'g \<Rightarrow> error + (real list \<times> 'g)" where
  "np_random_uniform env n gen =
     (if n < 0 then Inl ValueError
      else Inr (draw_each (\<lambda>u. random_sample env) (replicate (nat n) ()) gen))"

section \<open>The class TwoPopulationSimulation\<close>

text \<open>
  The attributes set by \<open>__init__\<close>. The attribute \<open>I_head\<close> exists in Python only when
  \<open>w_head\<close> is not None, and it is read only then; the record holds \<open>[]\<close> otherwise.
\<close>

record TwoPopulationSimulation =
  N :: int
  delta_t :: real
  tau :: real
  T :: real
  R :: real
  r_0 :: real
  alpha :: real
  beta :: real
  J :: real
  theta :: real
  I_ext :: bool
  I0 :: real
  J_head :: real
  w_head :: "real list option"
  I_head :: "real list"

text \<open>
  The attributes created by \<open>simulation\<close>: the six time series, one row per step, and the
  two position vectors.
\<close>

record arrays =
  hL :: "real list list"
  rL :: "real list list"
  sL :: "real list list"
  hR :: "real list list"
  rR :: "real list list"
  sR :: "real list list"
  xL :: "real list"
  xR :: "real list"

text \<open>
  The object passed as \<open>head_population\<close>: its positions (attribute \<open>x\<close>) and its spike
  array (attribute \<open>s\<close>, one row per step).
\<close>

record head_population =
  head_x :: "real list"
  head_s :: "real list list"

text \<open>
  \<open>J_head * np.mean(head_population.s / delta_t * w_head, axis=1)\<close>: one value per row of
  \<open>s\<close>, the mean over the neurons of that row. The division of an array by \<open>delta_t\<close>
  raises nothing in numpy: with \<open>delta_t = 0\<close> its entries are \<open>inf\<close> or \<open>nan\<close>, which the
  model does not have, and \<open>simulation\<close> then raises before any of them is read.
\<close>

definition head_drive :: "real \<Rightarrow> real \<Rightarrow> real list list \<Rightarrow> real list \<Rightarrow> error + real list" where
  "head_drive jh dt s w =
     emap (\<lambda>row. ebind (broadcast2 (*) (map (\<lambda>v. v / dt) row) w)
                    (\<lambda>p. Inr (jh * np_mean p))) s"

text \<open>
  \<open>__init__\<close>, lines 7 to 30. The defaults of the parameters come from the module
  \<open>constant\<close>, which is not part of the source: every parameter is explicit here. The
  flag \<open>x\<close> is a boolean (\<open>xflag\<close>).
\<close>

definition init :: "int \<Rightarrow> real \<Rightarrow> real \<Rightarrow> real \<Rightarrow> real \<Rightarrow> real \<Rightarrow> real \<Rightarrow> real \<Rightarrow> real \<Rightarrow> real
    \<Rightarrow> real \<Rightarrow> bool \<Rightarrow> real \<Rightarrow> head_population option \<Rightarrow> bool
    \<Rightarrow> error + TwoPopulationSimulation" where
  "init n dt ta tt rr r0 al be jj th i0 iext jh hp xflag =
     (let self = \<lparr>N = n, delta_t = dt, tau = ta, T = tt, R = rr, r_0 = r0, alpha = al,
                  beta = be, J = jj, theta = th, I_ext = iext, I0 = i0, J_head = jh,
                  w_head = None, I_head = []\<rparr>
      in case hp of
           None \<Rightarrow> Inr self
         | Some p \<Rightarrow>
             (let w = (if xflag then map cos (head_x p) else map sin (head_x p))
              in ebind (head_drive jh dt (head_s p) w)
                   (\<lambda>ih. Inr (self\<lparr>w_head := Some w, I_head := ih\<rparr>))))"

text \<open>
  \<open>initialize_simulation\<close>, lines 32 to 45. The expression \<open>int(self.T/self.delta_t)\<close>
  is the same on each of the three lines: the rounded quotient of the two floats, then
  its truncation. \<open>num_steps\<close> is its value when it raises nothing. The environment is
  an argument of the model for the allocator that \<open>np.zeros\<close> asks.
\<close>

definition num_steps :: "TwoPopulationSimulation \<Rightarrow> int" where
  "num_steps self = py_int (float_truediv (T self) (delta_t self))"

definition initialize_simulation ::
    "'g externals \<Rightarrow> TwoPopulationSimulation
     \<Rightarrow> error + (real list list \<times> real list list \<times> real list list)" where
  "initialize_simulation env self =
     ebind (py_float_truediv (T self) (delta_t self)) (\<lambda>q.
     ebind (py_int_of_float q) (\<lambda>k.
     ebind (np_zeros (allocates env) k (N self)) (\<lambda>h.
     ebind (np_zeros (allocates env) k (N self)) (\<lambda>r.
     ebind (np_zeros (allocates env) k (N self)) (\<lambda>s. Inr (h, r, s))))))"

text \<open>\<open>initialize_positions\<close>, lines 47 to 55.\<close>

definition initialize_positions :: "TwoPopulationSimulation \<Rightarrow> error + real list" where
  "initialize_positions self = np_linspace 0 (2 * pi) (N self)"

text \<open>\<open>uniform_voltage\<close>, lines 57 to 64, and \<open>centered_voltage\<close>, lines 66 to 78.\<close>

definition uniform_voltage ::
    "'g externals \<Rightarrow> TwoPopulationSimulation \<Rightarrow> 'g \<Rightarrow> error + (real list \<times> 'g)" where
  "uniform_voltage env self gen = np_random_uniform env (N self) gen"

definition centered_voltage ::
    "TwoPopulationSimulation \<Rightarrow> 'g \<Rightarrow> error + (real list \<times> 'g)" where
  "centered_voltage self gen =
     ebind (np_linspace 0 1 (N self)) (\<lambda>v.
       Inr (map (\<lambda>u. exp (- 0.5 * ((u - 0.5) / 0.05) ^ 2)) v, gen))"

text \<open>
  The argument \<open>initial_voltage\<close> is a Python callable, and \<open>first_step_update\<close> calls it
  with no argument. A callable that accepts that call (a bound method such as
  \<open>sim.uniform_voltage\<close>, a lambda) is \<open>ZeroArg\<close>; a plain function with one required
  positional parameter, as the class-level function \<open>uniform_voltage\<close> that the \<open>def\<close>
  line of \<open>simulation\<close> binds as default, is \<open>NeedsSelf\<close>, and calling it with no argument
  raises TypeError.
\<close>

datatype 'g callable =
    ZeroArg "'g \<Rightarrow> error + (real list \<times> 'g)"
  | NeedsSelf "TwoPopulationSimulation \<Rightarrow> 'g \<Rightarrow> error + (real list \<times> 'g)"

fun call0 :: "'g callable \<Rightarrow> 'g \<Rightarrow> error + (real list \<times> 'g)" where
  "call0 (ZeroArg f) gen = f gen"
| "call0 (NeedsSelf f) gen = Inl TypeError"

definition default_initial_voltage :: "'g externals \<Rightarrow> 'g callable" where
  "default_initial_voltage env = NeedsSelf (uniform_voltage env)"

text \<open>\<open>first_step_update\<close>, lines 81 to 97.\<close>

definition first_step_update ::
    "'g externals \<Rightarrow> TwoPopulationSimulation \<Rightarrow> 'g callable \<Rightarrow> 'g
     \<Rightarrow> error + ((real list \<times> real list \<times> real list) \<times> 'g)" where
  "first_step_update env self initial_voltage gen =
     ebind (call0 initial_voltage gen) (\<lambda>(h0, gen1).
       let r0 = map (\<lambda>v. r_0 self * g env v (alpha self) (beta self)) h0
       in ebind (np_random_binomial env (map (\<lambda>v. v * delta_t self) r0) gen1)
            (\<lambda>(s0, gen2). Inr ((h0, r0, s0), gen2)))"

text \<open>
  \<open>update\<close>, lines 99 to 115. Lines 109 to 111 and lines 113 to 115 are the same three
  statements, on the arrays of the left and of the right population: \<open>update_rows\<close> is
  those three statements on one population's arrays \<open>h\<close>, \<open>r\<close>, \<open>s\<close> with its input \<open>inp\<close>.
  The operands are evaluated in Python's order: \<open>h[t]\<close>, then \<open>delta_t / tau\<close>, then the
  bracket.
\<close>

definition update_rows ::
    "'g externals \<Rightarrow> TwoPopulationSimulation \<Rightarrow> nat \<Rightarrow> real list
     \<Rightarrow> real list list \<Rightarrow> real list list \<Rightarrow> real list list \<Rightarrow> 'g
     \<Rightarrow> error + ((real list list \<times> real list list \<times> real list list) \<times> 'g)" where
  "update_rows env self t inp h r s gen =
     (if length h \<le> t then Inl IndexError
      else
        ebind (py_truediv (delta_t self) (tau self)) (\<lambda>c.
        ebind (broadcast2 (+) (map uminus (h ! t)) (map (\<lambda>i. R self * i) inp)) (\<lambda>b.
        ebind (broadcast2 (+) (h ! t) (map (\<lambda>v. c * v) b)) (\<lambda>hn.
        ebind (set_row h (t + 1) hn) (\<lambda>h1.
        ebind (set_row r (t + 1)
                 (map (\<lambda>v. r_0 self * g env v (alpha self) (beta self)) (h1 ! (t + 1)))) (\<lambda>r1.
        ebind (np_random_binomial env (map (\<lambda>v. v * delta_t self) (r1 ! (t + 1))) gen)
          (\<lambda>(sn, gen1).
        ebind (set_row s (t + 1) sn) (\<lambda>s1. Inr ((h1, r1, s1), gen1)))))))))"

definition update ::
    "'g externals \<Rightarrow> TwoPopulationSimulation \<Rightarrow> nat \<Rightarrow> real list \<Rightarrow> real list
     \<Rightarrow> arrays \<Rightarrow> 'g \<Rightarrow> error + (arrays \<times> 'g)" where
  "update env self t IL IR st gen =
     ebind (update_rows env self t IL (hL st) (rL st) (sL st) gen) (\<lambda>((h1, r1, s1), gen1).
     ebind (update_rows env self t IR (hR st) (rR st) (sR st) gen1) (\<lambda>((h2, r2, s2), gen2).
       Inr (st\<lparr>hL := h1, rL := r1, sL := s1, hR := h2, rR := r2, sR := s2\<rparr>, gen2)))"

text \<open>\<open>two_population_recurrent_input\<close>, lines 117 to 141.\<close>

definition two_population_recurrent_input ::
    "real list \<Rightarrow> real list \<Rightarrow> real list \<Rightarrow> real list \<Rightarrow> real \<Rightarrow> real
     \<Rightarrow> error + (real list \<times> real list)" where
  "two_population_recurrent_input xl xr SL SR jj th =
     ebind (broadcast2 (*) (map cos xl) SL) (\<lambda>cl.
     ebind (broadcast2 (*) (map cos xr) SR) (\<lambda>cr.
     ebind (broadcast2 (*) (map sin xl) SL) (\<lambda>sl.
     ebind (broadcast2 (*) (map sin xr) SR) (\<lambda>sr.
       let mcos_L = np_mean cl; mcos_R = np_mean cr;
           msin_L = np_mean sl; msin_R = np_mean sr
       in Inr (map (\<lambda>p. jj * (cos (p + th) * (mcos_L + mcos_R)
                               + sin (p + th) * (msin_L + msin_R))) xl,
               map (\<lambda>p. jj * (cos (p - th) * (mcos_L + mcos_R)
                               + sin (p - th) * (msin_L + msin_R))) xr)))))"

text \<open>\<open>external_input\<close>, lines 143 to 157.\<close>

definition external_input :: "TwoPopulationSimulation \<Rightarrow> real \<Rightarrow> real" where
  "external_input self t = (if 300 \<le> t \<and> t < 600 then I0 self else 0)"

text \<open>
  The body of the loop of \<open>simulation\<close>, lines 185 to 196. \<open>input_currents\<close> is lines 185
  to 194, the computation of \<open>IL\<close> and \<open>IR\<close> for step \<open>t\<close>; \<open>loop_body\<close> passes them to
  \<open>update\<close> (line 196).
\<close>

definition input_currents ::
    "TwoPopulationSimulation \<Rightarrow> arrays \<Rightarrow> nat \<Rightarrow> error + (real list \<times> real list)" where
  "input_currents self st t =
     (if length (sL st) \<le> t \<or> length (sR st) \<le> t then Inl IndexError
      else
        ebind (two_population_recurrent_input (xL st) (xR st)
                 (map (\<lambda>v. v / delta_t self) (sL st ! t))
                 (map (\<lambda>v. v / delta_t self) (sR st ! t)) (J self) (theta self))
          (\<lambda>(IL, IR).
             let (IL1, IR1) =
                   (if I_ext self
                    then (map (\<lambda>i. i - external_input self (real t * delta_t self)) IL,
                          map (\<lambda>i. i + external_input self (real t * delta_t self)) IR)
                    else (IL, IR))
             in case w_head self of
                  None \<Rightarrow> Inr (IL1, IR1)
                | Some w \<Rightarrow>
                    (if length (I_head self) \<le> t then Inl IndexError
                     else Inr (map (\<lambda>i. i - I_head self ! t) IL1,
                               map (\<lambda>i. i + I_head self ! t) IR1))))"

definition loop_body ::
    "'g externals \<Rightarrow> TwoPopulationSimulation \<Rightarrow> nat \<Rightarrow> arrays \<Rightarrow> 'g \<Rightarrow> error + (arrays \<times> 'g)" where
  "loop_body env self t st gen =
     ebind (input_currents self st t) (\<lambda>(IL, IR). update env self t IL IR st gen)"

fun run_loop ::
    "'g externals \<Rightarrow> TwoPopulationSimulation \<Rightarrow> nat list \<Rightarrow> arrays \<Rightarrow> 'g \<Rightarrow> error + (arrays \<times> 'g)" where
  "run_loop env self [] st gen = Inr (st, gen)"
| "run_loop env self (t # ts) st gen =
     ebind (loop_body env self t st gen) (\<lambda>(st1, gen1). run_loop env self ts st1 gen1)"

text \<open>
  \<open>simulation\<close>, lines 159 to 197. \<open>prepare\<close> is lines 173 to 181, everything before the
  loop: the allocation of the arrays, the positions, and row 0 of both populations. In
  each tuple assignment of lines 180 and 181 the right-hand side is evaluated first and
  the three rows are assigned from left to right.
\<close>

definition prepare ::
    "'g externals \<Rightarrow> TwoPopulationSimulation \<Rightarrow> 'g callable \<Rightarrow> 'g \<Rightarrow> error + (arrays \<times> 'g)" where
  "prepare env self initial_voltage gen =
     ebind (initialize_simulation env self) (\<lambda>(hl, rl, sl).
     ebind (initialize_simulation env self) (\<lambda>(hr, rr, sr).
     ebind (initialize_positions self) (\<lambda>xl.
     ebind (initialize_positions self) (\<lambda>xr.
     ebind (first_step_update env self initial_voltage gen) (\<lambda>((h0, r0, s0), gen1).
     ebind (set_row hl 0 h0) (\<lambda>hl1.
     ebind (set_row rl 0 r0) (\<lambda>rl1.
     ebind (set_row sl 0 s0) (\<lambda>sl1.
     ebind (first_step_update env self initial_voltage gen1) (\<lambda>((h0', r0', s0'), gen2).
     ebind (set_row hr 0 h0') (\<lambda>hr1.
     ebind (set_row rr 0 r0') (\<lambda>rr1.
     ebind (set_row sr 0 s0') (\<lambda>sr1.
       Inr (\<lparr>hL = hl1, rL = rl1, sL = sl1, hR = hr1, rR = rr1, sR = sr1,
             xL = xl, xR = xr\<rparr>, gen2)))))))))))))"

definition simulation_state ::
    "'g externals \<Rightarrow> TwoPopulationSimulation \<Rightarrow> 'g callable \<Rightarrow> 'g \<Rightarrow> error + (arrays \<times> 'g)" where
  "simulation_state env self initial_voltage gen =
     ebind (prepare env self initial_voltage gen) (\<lambda>(st, gen1).
       run_loop env self [0..<length (hR st) - 1] st gen1)"

definition simulation ::
    "'g externals \<Rightarrow> TwoPopulationSimulation \<Rightarrow> 'g callable \<Rightarrow> 'g
     \<Rightarrow> error + (real list list \<times> real list list \<times> real list list \<times> real list list)" where
  "simulation env self initial_voltage gen =
     ebind (simulation_state env self initial_voltage gen) (\<lambda>(st, gen1).
       Inr (hL st, sL st, hR st, sR st))"

section \<open>Notions of the specification\<close>

text \<open>
  An array of shape \<open>(k, n)\<close>: \<open>k\<close> rows of \<open>n\<close> entries each.
\<close>

definition shape :: "nat \<Rightarrow> nat \<Rightarrow> real list list \<Rightarrow> bool" where
  "shape k n a = (length a = k \<and> list_all (\<lambda>row. length row = n) a)"

text \<open>
  The three rules of the integrator as the specification words them, for one row:
  the explicit Euler rule \<open>h + (delta_t / tau) * (- h + R * I)\<close> per neuron, the rate
  \<open>r_0 * g(h, alpha, beta)\<close> per neuron, and one Bernoulli trial per neuron with the
  given success probabilities.
\<close>

definition euler_row :: "TwoPopulationSimulation \<Rightarrow> real list \<Rightarrow> real list \<Rightarrow> real list" where
  "euler_row self hrow inp =
     map2 (\<lambda>a i. a + delta_t self / tau self * (- a + R self * i)) hrow inp"

definition rate_row :: "'g externals \<Rightarrow> TwoPopulationSimulation \<Rightarrow> real list \<Rightarrow> real list" where
  "rate_row env self hrow = map (\<lambda>v. r_0 self * g env v (alpha self) (beta self)) hrow"

definition bernoulli_row :: "'g externals \<Rightarrow> real list \<Rightarrow> 'g \<Rightarrow> real list \<times> 'g" where
  "bernoulli_row env p gen =
     (case draw_each (binomial1 env) p gen of
        (bs, gen1) \<Rightarrow> (map (\<lambda>b. if b then 1 else 0) bs, gen1))"

text \<open>
  The circular moment of a population as the specification words it: the mean over the
  neurons \<open>i\<close> of \<open>f(position_i) * rate_i\<close>, with \<open>f\<close> the cosine or the sine.
\<close>

definition circular_moment :: "(real \<Rightarrow> real) \<Rightarrow> real list \<Rightarrow> real list \<Rightarrow> real" where
  "circular_moment f pos rate =
     (\<Sum>i = 0..<length pos. f (pos ! i) * rate ! i) / real (length pos)"

text \<open>
  The pulse of the specification at step \<open>t\<close>: \<open>I0\<close> when the simulated time
  \<open>t * delta_t\<close> lies in the half-open window from 300 to 600, and 0 otherwise.
\<close>

definition pulse :: "TwoPopulationSimulation \<Rightarrow> nat \<Rightarrow> real" where
  "pulse self t =
     (if 300 \<le> real t * delta_t self \<and> real t * delta_t self < 600 then I0 self else 0)"

subsection \<open>Example inputs\<close>

text \<open>
  A small configuration, an environment with a constant activation function,
  deterministic draws and an allocator that grants every array, a population state with
  700 rows, and a head population with two neurons and two steps.
\<close>

definition example_env :: "nat externals" where
  "example_env = \<lparr>g = (\<lambda>h a b. 1 / 2), random_sample = (\<lambda>n. (1 / 4, Suc n)),
                   binomial1 = (\<lambda>p n. (1 / 2 \<le> p, Suc n)), allocates = (\<lambda>n. True)\<rparr>"

definition example_sim :: TwoPopulationSimulation where
  "example_sim = \<lparr>N = 2, delta_t = 1, tau = 2, T = 3, R = 1, r_0 = 1, alpha = 1,
                   beta = 0, J = 1, theta = 0, I_ext = True, I0 = 5, J_head = 1,
                   w_head = None, I_head = []\<rparr>"

definition example_arrays :: arrays where
  "example_arrays = \<lparr>hL = replicate 700 [0, 0], rL = replicate 700 [0, 0],
                      sL = replicate 700 [1, 0], hR = replicate 700 [0, 0],
                      rR = replicate 700 [0, 0], sR = replicate 700 [1, 0],
                      xL = [0, 2 * pi], xR = [0, 2 * pi]\<rparr>"

definition example_head :: head_population where
  "example_head = \<lparr>head_x = [0, pi], head_s = [[1, 0], [1, 1]]\<rparr>"

text \<open>
  A population state in which the six time series have shape \<open>(k, n)\<close> and the two
  position vectors have \<open>n\<close> entries.
\<close>

definition well_shaped :: "nat \<Rightarrow> nat \<Rightarrow> arrays \<Rightarrow> bool" where
  "well_shaped k n st =
     (shape k n (hL st) \<and> shape k n (rL st) \<and> shape k n (sL st) \<and>
      shape k n (hR st) \<and> shape k n (rR st) \<and> shape k n (sR st) \<and>
      length (xL st) = n \<and> length (xR st) = n)"

text \<open>
  The states of one run of the example configuration with the bound method
  \<open>uniform_voltage\<close> as initializer: after the preparation, and after the loop.
\<close>

definition example_start :: arrays where
  "example_start = \<lparr>hL = [[1 / 4, 1 / 4], [0, 0], [0, 0]], rL = [[1 / 2, 1 / 2], [0, 0], [0, 0]],
                     sL = [[1, 1], [0, 0], [0, 0]],
                     hR = [[1 / 4, 1 / 4], [0, 0], [0, 0]], rR = [[1 / 2, 1 / 2], [0, 0], [0, 0]],
                     sR = [[1, 1], [0, 0], [0, 0]],
                     xL = [0, 2 * pi], xR = [0, 2 * pi]\<rparr>"

definition example_middle :: arrays where
  "example_middle = \<lparr>hL = [[1 / 4, 1 / 4], [9 / 8, 9 / 8], [0, 0]],
                     rL = [[1 / 2, 1 / 2], [1 / 2, 1 / 2], [0, 0]],
                     sL = [[1, 1], [1, 1], [0, 0]],
                     hR = [[1 / 4, 1 / 4], [9 / 8, 9 / 8], [0, 0]],
                     rR = [[1 / 2, 1 / 2], [1 / 2, 1 / 2], [0, 0]],
                     sR = [[1, 1], [1, 1], [0, 0]],
                     xL = [0, 2 * pi], xR = [0, 2 * pi]\<rparr>"

definition example_final :: arrays where
  "example_final = \<lparr>hL = [[1 / 4, 1 / 4], [9 / 8, 9 / 8], [25 / 16, 25 / 16]],
                     rL = [[1 / 2, 1 / 2], [1 / 2, 1 / 2], [1 / 2, 1 / 2]],
                     sL = [[1, 1], [1, 1], [1, 1]],
                     hR = [[1 / 4, 1 / 4], [9 / 8, 9 / 8], [25 / 16, 25 / 16]],
                     rR = [[1 / 2, 1 / 2], [1 / 2, 1 / 2], [1 / 2, 1 / 2]],
                     sR = [[1, 1], [1, 1], [1, 1]],
                     xL = [0, 2 * pi], xR = [0, 2 * pi]\<rparr>"

text \<open>
  The example configuration without coupling, pulse and head link, and the potentials of
  its run.
\<close>

definition example_uncoupled :: TwoPopulationSimulation where
  "example_uncoupled = example_sim\<lparr>J := 0, I_ext := False\<rparr>"

definition example_decay :: "real list list" where
  "example_decay = [[1 / 4, 1 / 4], [1 / 8, 1 / 8], [1 / 16, 1 / 16]]"

text \<open>
  The example configuration linked to a head population of two neurons with a single
  step, and the state after step 0 of its run.
\<close>

definition example_short_head :: TwoPopulationSimulation where
  "example_short_head = example_sim\<lparr>I_ext := False, w_head := Some [1, - 1], I_head := [1 / 2]\<rparr>"

definition example_short_head_step :: arrays where
  "example_short_head_step =
     \<lparr>hL = [[1 / 4, 1 / 4], [7 / 8, 7 / 8], [0, 0]],
      rL = [[1 / 2, 1 / 2], [1 / 2, 1 / 2], [0, 0]],
      sL = [[1, 1], [1, 1], [0, 0]],
      hR = [[1 / 4, 1 / 4], [11 / 8, 11 / 8], [0, 0]],
      rR = [[1 / 2, 1 / 2], [1 / 2, 1 / 2], [0, 0]],
      sR = [[1, 1], [1, 1], [0, 0]],
      xL = [0, 2 * pi], xR = [0, 2 * pi]\<rparr>"

text \<open>
  The example configuration with a negative and with a zero time constant, and the
  potentials of the run with the negative one.
\<close>

definition example_negative_tau :: TwoPopulationSimulation where
  "example_negative_tau = example_sim\<lparr>tau := - 2\<rparr>"

definition example_zero_tau :: TwoPopulationSimulation where
  "example_zero_tau = example_sim\<lparr>tau := 0\<rparr>"

definition example_growth :: "real list list" where
  "example_growth = [[1 / 4, 1 / 4], [- 5 / 8, - 5 / 8], [- 31 / 16, - 31 / 16]]"

section \<open>Basic facts about the primitives\<close>

lemma ebind_Inr [simp]: "ebind (Inr v) f = f v"
  by (simp add: ebind_def)

lemma ebind_Inl [simp]: "ebind (Inl e) f = Inl e"
  by (simp add: ebind_def)

lemma ebind_eq_Inr: "ebind m f = Inr y \<longleftrightarrow> (\<exists>v. m = Inr v \<and> f v = Inr y)"
  by (cases m) simp_all

lemma broadcast2_same: "length u = length v \<Longrightarrow> broadcast2 f u v = Inr (map2 f u v)"
  by (simp add: broadcast2_def)

lemma broadcast_to_same: "length v = n \<Longrightarrow> broadcast_to n v = Inr v"
  by (simp add: broadcast_to_def)

lemma broadcast_to_length: "broadcast_to n v = Inr w \<Longrightarrow> length w = n"
  by (auto simp: broadcast_to_def split: if_splits)

lemma shape_nth: "shape k n a \<Longrightarrow> i < k \<Longrightarrow> length (a ! i) = n"
  by (simp add: shape_def list_all_length)

lemma shape_length: "shape k n a \<Longrightarrow> length a = k"
  by (simp add: shape_def)

lemma shape_update: "shape k n a \<Longrightarrow> length v = n \<Longrightarrow> shape k n (a[i := v])"
  using set_update_subset_insert [of a i v] by (auto simp: shape_def list_all_iff)

lemma set_row_same:
  "i < length a \<Longrightarrow> length v = length (a ! i) \<Longrightarrow> set_row a i v = Inr (a[i := v])"
  by (simp add: set_row_def broadcast_to_same)

lemma set_row_shape: "set_row a i v = Inr a1 \<Longrightarrow> shape k n a \<Longrightarrow> shape k n a1"
  by (auto simp: set_row_def ebind_eq_Inr split: if_splits
           dest!: broadcast_to_length intro!: shape_update simp: shape_nth shape_length)

lemma set_row_other: "set_row a i v = Inr a1 \<Longrightarrow> j \<noteq> i \<Longrightarrow> a1 ! j = a ! j"
  by (auto simp: set_row_def ebind_eq_Inr split: if_splits)

lemma draw_each_length: "draw_each d ps gen = (vs, gen1) \<Longrightarrow> length vs = length ps"
  by (induction ps arbitrary: gen vs gen1) (auto split: prod.splits)

lemma bernoulli_row_length: "length (fst (bernoulli_row env p gen)) = length p"
  by (auto simp: bernoulli_row_def split: prod.splits dest: draw_each_length)

lemma np_random_binomial_eq:
  "np_random_binomial env p gen =
     (if list_all (\<lambda>q. 0 \<le> q \<and> q \<le> 1) p then Inr (bernoulli_row env p gen) else Inl ValueError)"
  by (simp add: np_random_binomial_def bernoulli_row_def split: prod.splits)

lemma euler_row_length: "length hrow = length inp \<Longrightarrow> length (euler_row self hrow inp) = length inp"
  by (simp add: euler_row_def)

lemma euler_steps:
  assumes "length hrow = length inp"
  shows "map2 (+) hrow (map (\<lambda>v. delta_t self / tau self * v)
            (map2 (+) (map uminus hrow) (map (\<lambda>i. R self * i) inp))) = euler_row self hrow inp"
  using assms by (intro nth_equalityI) (simp_all add: euler_row_def)

lemma update_rows_shape:
  assumes "shape k n h" "shape k n r" "shape k n s" "length inp = n" "t + 1 < k" "tau self \<noteq> 0"
  shows "update_rows env self t inp h r s gen =
     (let hn = euler_row self (h ! t) inp;
          rn = rate_row env self hn;
          p = map (\<lambda>v. v * delta_t self) rn
      in if list_all (\<lambda>q. 0 \<le> q \<and> q \<le> 1) p
         then Inr ((h[t + 1 := hn], r[t + 1 := rn], s[t + 1 := fst (bernoulli_row env p gen)]),
                   snd (bernoulli_row env p gen))
         else Inl ValueError)"
proof -
  let ?c = "delta_t self / tau self"
  let ?b = "map2 (+) (map uminus (h ! t)) (map (\<lambda>i. R self * i) inp)"
  let ?hn = "euler_row self (h ! t) inp"
  let ?rn = "rate_row env self ?hn"
  let ?p = "map (\<lambda>v. v * delta_t self) ?rn"
  let ?sn = "fst (bernoulli_row env ?p gen)"
  have lh: "length (h ! t) = n" and lh1: "length (h ! (t + 1)) = n"
    and lr1: "length (r ! (t + 1)) = n" and ls1: "length (s ! (t + 1)) = n"
    using assms by (simp_all add: shape_nth)
  have k: "length h = k" "length r = k" "length s = k"
    using assms by (simp_all add: shape_length)
  have le: "length ?hn = n"
    using lh assms(4) by (simp add: euler_row_length)
  have f0: "\<not> length h \<le> t"
    using k assms(5) by simp
  have f1: "py_truediv (delta_t self) (tau self) = Inr ?c"
    using assms(6) by (simp add: py_truediv_def)
  have f2: "broadcast2 (+) (map uminus (h ! t)) (map (\<lambda>i. R self * i) inp) = Inr ?b"
    using lh assms(4) by (simp add: broadcast2_same)
  have f3: "broadcast2 (+) (h ! t) (map (\<lambda>v. ?c * v) ?b) = Inr ?hn"
    using lh assms(4) euler_steps [of "h ! t" inp self] by (simp add: broadcast2_same)
  have f4: "set_row h (t + 1) ?hn = Inr (h[t + 1 := ?hn])"
    using k assms(5) le lh1 by (simp add: set_row_same)
  have f5: "(h[t + 1 := ?hn]) ! (t + 1) = ?hn"
    using k assms(5) by simp
  have f6: "set_row r (t + 1) ?rn = Inr (r[t + 1 := ?rn])"
    using k assms(5) le lr1 by (simp add: set_row_same rate_row_def)
  have f7: "(r[t + 1 := ?rn]) ! (t + 1) = ?rn"
    using k assms(5) by simp
  have f8: "set_row s (t + 1) ?sn = Inr (s[t + 1 := ?sn])"
    using k assms(5) le ls1 by (simp add: set_row_same rate_row_def bernoulli_row_length)
  show ?thesis
  proof (cases "list_all (\<lambda>q. 0 \<le> q \<and> q \<le> 1) ?p")
    case True
    then show ?thesis
      by (simp only: update_rows_def f0 if_False f1 ebind_Inr f2 f3 f4 f5
          rate_row_def [symmetric] f6 f7 np_random_binomial_eq if_True Let_def
          case_prod_beta f8)
  next
    case False
    then show ?thesis
      by (simp only: update_rows_def f0 if_False f1 ebind_Inr f2 f3 f4 f5
          rate_row_def [symmetric] f6 f7 np_random_binomial_eq Let_def ebind_Inl)
  qed
qed

section \<open>The input currents of a step\<close>

lemma np_mean_moment:
  assumes "length rate = length pos"
  shows "np_mean (map2 (*) (map f pos) rate) = circular_moment f pos rate"
proof -
  have "sum_list (map2 (*) (map f pos) rate) = (\<Sum>i = 0..<length pos. f (pos ! i) * rate ! i)"
    using assms by (simp add: sum_list_sum_nth)
  then show ?thesis
    using assms by (simp add: np_mean_def circular_moment_def)
qed

lemma recurrent_eq:
  assumes "length SL = length xl" "length SR = length xr"
  shows "two_population_recurrent_input xl xr SL SR jj th =
     Inr (map (\<lambda>p. jj * (cos (p + th) * (circular_moment cos xl SL + circular_moment cos xr SR)
                        + sin (p + th) * (circular_moment sin xl SL + circular_moment sin xr SR))) xl,
          map (\<lambda>p. jj * (cos (p - th) * (circular_moment cos xl SL + circular_moment cos xr SR)
                        + sin (p - th) * (circular_moment sin xl SL + circular_moment sin xr SR))) xr)"
  using assms
  by (simp add: two_population_recurrent_input_def broadcast2_same np_mean_moment Let_def)

lemma input_currents_lengths:
  assumes "input_currents self st t = Inr (IL, IR)"
  shows "length IL = length (xL st) \<and> length IR = length (xR st)"
  using assms
  by (auto simp: input_currents_def two_population_recurrent_input_def ebind_eq_Inr Let_def
      split: if_splits option.splits prod.splits)

lemma input_currents_eq:
  assumes "t < length (sL st)" "t < length (sR st)"
    and "two_population_recurrent_input (xL st) (xR st)
           (map (\<lambda>v. v / delta_t self) (sL st ! t))
           (map (\<lambda>v. v / delta_t self) (sR st ! t)) (J self) (theta self) = Inr (IL0, IR0)"
  shows "input_currents self st t =
     (case w_head self of
        None \<Rightarrow> Inr (map (\<lambda>i. i - (if I_ext self then pulse self t else 0)) IL0,
                    map (\<lambda>i. i + (if I_ext self then pulse self t else 0)) IR0)
      | Some w \<Rightarrow>
          if length (I_head self) \<le> t then Inl IndexError
          else Inr (map (\<lambda>i. i - (if I_ext self then pulse self t else 0) - I_head self ! t) IL0,
                    map (\<lambda>i. i + (if I_ext self then pulse self t else 0) + I_head self ! t) IR0))"
  using assms
  by (simp add: input_currents_def pulse_def external_input_def split: option.splits)

lemma input_currents_Inr:
  assumes "input_currents self st t = Inr (IL, IR)"
  shows "t < length (sL st) \<and> t < length (sR st) \<and>
     (\<exists>IL0 IR0. two_population_recurrent_input (xL st) (xR st)
           (map (\<lambda>v. v / delta_t self) (sL st ! t))
           (map (\<lambda>v. v / delta_t self) (sR st ! t)) (J self) (theta self) = Inr (IL0, IR0))"
  using assms
  by (auto simp: input_currents_def ebind_eq_Inr split: if_splits)

lemma input_currents_no_pulse:
  assumes "input_currents (self\<lparr>I_ext := False\<rparr>) st t = Inr (IL, IR)"
  shows "input_currents self st t =
     Inr (map (\<lambda>i. i - (if I_ext self then pulse self t else 0)) IL,
          map (\<lambda>i. i + (if I_ext self then pulse self t else 0)) IR)"
proof -
  let ?s = "self\<lparr>I_ext := False\<rparr>"
  from input_currents_Inr [OF assms] obtain IL0 IR0 where
    t: "t < length (sL st)" "t < length (sR st)" and
    r: "two_population_recurrent_input (xL st) (xR st)
           (map (\<lambda>v. v / delta_t self) (sL st ! t))
           (map (\<lambda>v. v / delta_t self) (sR st ! t)) (J self) (theta self) = Inr (IL0, IR0)"
    by auto
  have r': "two_population_recurrent_input (xL st) (xR st)
           (map (\<lambda>v. v / delta_t ?s) (sL st ! t))
           (map (\<lambda>v. v / delta_t ?s) (sR st ! t)) (J ?s) (theta ?s) = Inr (IL0, IR0)"
    using r by simp
  show ?thesis
    using assms
    unfolding input_currents_eq [OF t r] input_currents_eq [OF t r']
    by (auto split: option.splits if_splits)
qed

lemma input_currents_no_head:
  assumes "input_currents (self\<lparr>w_head := None\<rparr>) st t = Inr (IL, IR)" "w_head self = Some w"
  shows "input_currents self st t =
     (if length (I_head self) \<le> t then Inl IndexError
      else Inr (map (\<lambda>i. i - I_head self ! t) IL, map (\<lambda>i. i + I_head self ! t) IR))"
proof -
  let ?s = "self\<lparr>w_head := None\<rparr>"
  from input_currents_Inr [OF assms(1)] obtain IL0 IR0 where
    t: "t < length (sL st)" "t < length (sR st)" and
    r: "two_population_recurrent_input (xL st) (xR st)
           (map (\<lambda>v. v / delta_t self) (sL st ! t))
           (map (\<lambda>v. v / delta_t self) (sR st ! t)) (J self) (theta self) = Inr (IL0, IR0)"
    by auto
  have r': "two_population_recurrent_input (xL st) (xR st)
           (map (\<lambda>v. v / delta_t ?s) (sL st ! t))
           (map (\<lambda>v. v / delta_t ?s) (sR st ! t)) (J ?s) (theta ?s) = Inr (IL0, IR0)"
    using r by simp
  show ?thesis
    using assms
    unfolding input_currents_eq [OF t r] input_currents_eq [OF t r']
    by (auto simp: pulse_def split: option.splits if_splits)
qed

text \<open>
  Claim C3. With the pulse enabled, step \<open>t\<close> of the loop subtracts the pulse from every
  entry of the left input and adds it to every entry of the right input, where the pulse
  is \<open>I0\<close> exactly when \<open>t * delta_t\<close> lies in the half-open window from 300 to 600 and 0
  otherwise (\<open>IL\<close>, \<open>IR\<close> are the inputs the same step computes without the pulse). With
  \<open>I0 = 5\<close> and \<open>delta_t = 1\<close> the pulse is 5 from step 300 to step 599 and 0 at every
  other step, so 0 at steps 299 and 600.
\<close>

theorem pulse_half_open_window:
  assumes "I_ext self" and "input_currents (self\<lparr>I_ext := False\<rparr>) st t = Inr (IL, IR)"
  shows "input_currents self st t =
           Inr (map (\<lambda>i. i - pulse self t) IL, map (\<lambda>i. i + pulse self t) IR)
         \<and> (I0 self = 5 \<and> delta_t self = 1 \<longrightarrow> pulse self t = (if 300 \<le> t \<and> t \<le> 599 then 5 else 0))"
proof -
  have "input_currents self st t =
           Inr (map (\<lambda>i. i - pulse self t) IL, map (\<lambda>i. i + pulse self t) IR)"
    using input_currents_no_pulse [OF assms(2)] assms(1) by simp
  moreover have "I0 self = 5 \<and> delta_t self = 1 \<longrightarrow> pulse self t = (if 300 \<le> t \<and> t \<le> 599 then 5 else 0)"
    by (auto simp: pulse_def)
  ultimately show ?thesis by simp
qed

lemma example_recurrent:
  "t < 700 \<Longrightarrow> input_currents (example_sim\<lparr>I_ext := False\<rparr>) example_arrays t = Inr ([1, 1], [1, 1])"
  by (simp add: input_currents_def example_sim_def example_arrays_def
      two_population_recurrent_input_def broadcast2_def np_mean_def)

theorem pulse_half_open_window_witness:
  "input_currents example_sim example_arrays 299 = Inr ([1, 1], [1, 1])
   \<and> input_currents example_sim example_arrays 300 = Inr ([- 4, - 4], [6, 6])
   \<and> input_currents example_sim example_arrays 599 = Inr ([- 4, - 4], [6, 6])
   \<and> input_currents example_sim example_arrays 600 = Inr ([1, 1], [1, 1])"
proof -
  have e: "I_ext example_sim" "I0 example_sim = 5" "delta_t example_sim = 1"
    by (simp_all add: example_sim_def)
  show ?thesis
    using pulse_half_open_window [OF e(1) example_recurrent, of 299]
      pulse_half_open_window [OF e(1) example_recurrent, of 300]
      pulse_half_open_window [OF e(1) example_recurrent, of 599]
      pulse_half_open_window [OF e(1) example_recurrent, of 600] e(2,3)
    by simp
qed

text \<open>
  Claim C2. At step \<open>t\<close> the loop calls the recurrent input on the positions and on the
  instantaneous rates \<open>s[t] / delta_t\<close> of both populations (rows as long as the
  position vectors). With the pooled moments \<open>C\<close> and \<open>S\<close>, the sums over both populations
  of the mean of \<open>cos(position_i) * rate_i\<close> and of \<open>sin(position_i) * rate_i\<close>, neuron \<open>i\<close>
  of the left population receives \<open>J * (cos(x_L[i] + theta) * C + sin(x_L[i] + theta) * S)\<close>
  and neuron \<open>i\<close> of the right population the same with \<open>x_R[i] - theta\<close>. Without pulse
  and head link these are the input currents of the step.
\<close>

theorem recurrent_input_formula:
  assumes "t < length (sL st)" "t < length (sR st)"
    and "length (sL st ! t) = length (xL st)" "length (sR st ! t) = length (xR st)"
  shows "let rate_L = map (\<lambda>v. v / delta_t self) (sL st ! t);
             rate_R = map (\<lambda>v. v / delta_t self) (sR st ! t);
             C = circular_moment cos (xL st) rate_L + circular_moment cos (xR st) rate_R;
             S = circular_moment sin (xL st) rate_L + circular_moment sin (xR st) rate_R
         in \<exists>IL IR.
              two_population_recurrent_input (xL st) (xR st) rate_L rate_R (J self) (theta self)
                = Inr (IL, IR)
              \<and> length IL = length (xL st) \<and> length IR = length (xR st)
              \<and> (\<forall>i < length (xL st).
                    IL ! i = J self * (cos (xL st ! i + theta self) * C
                                       + sin (xL st ! i + theta self) * S))
              \<and> (\<forall>i < length (xR st).
                    IR ! i = J self * (cos (xR st ! i - theta self) * C
                                       + sin (xR st ! i - theta self) * S))
              \<and> (\<not> I_ext self \<and> w_head self = None \<longrightarrow>
                    input_currents self st t = Inr (IL, IR))"
proof -
  let ?rl = "map (\<lambda>v. v / delta_t self) (sL st ! t)"
  let ?rr = "map (\<lambda>v. v / delta_t self) (sR st ! t)"
  have l: "length ?rl = length (xL st)" "length ?rr = length (xR st)"
    using assms(3,4) by simp_all
  note r = recurrent_eq [OF l, of "J self" "theta self"]
  have "\<not> I_ext self \<and> w_head self = None \<longrightarrow>
      input_currents self st t = two_population_recurrent_input (xL st) (xR st) ?rl ?rr (J self) (theta self)"
    using input_currents_eq [OF assms(1,2) r, of ] r by simp
  then show ?thesis
    unfolding Let_def r by simp
qed

theorem recurrent_input_formula_witness:
  "two_population_recurrent_input (xL example_arrays) (xR example_arrays)
     (map (\<lambda>v. v / delta_t example_sim) (sL example_arrays ! 3))
     (map (\<lambda>v. v / delta_t example_sim) (sR example_arrays ! 3)) (J example_sim) (theta example_sim)
   = Inr ([1, 1], [1, 1])
   \<and> input_currents (example_sim\<lparr>I_ext := False\<rparr>) example_arrays 3 = Inr ([1, 1], [1, 1])"
proof -
  have h: "(3::nat) < length (sL example_arrays)" "(3::nat) < length (sR example_arrays)"
    "length (sL example_arrays ! 3) = length (xL example_arrays)"
    "length (sR example_arrays ! 3) = length (xR example_arrays)"
    by (simp_all add: example_arrays_def)
  have c: "circular_moment cos [0, 2 * pi] [1, 0] = 1 / 2" "circular_moment sin [0, 2 * pi] [1, 0] = 0"
    by (simp_all add: circular_moment_def numeral_2_eq_2)
  show ?thesis
    using recurrent_input_formula [OF h, of "example_sim\<lparr>I_ext := False\<rparr>"]
    apply (simp add: Let_def example_arrays_def example_sim_def c)
    apply (auto simp: list_eq_iff_nth_eq less_Suc_eq numeral_2_eq_2)
    done
qed

section \<open>The head-population drive\<close>

lemma emap_all_Inr:
  assumes "\<And>a. a \<in> set as \<Longrightarrow> f a = Inr (h a)"
  shows "emap f as = Inr (map h as)"
  using assms by (induction as) simp_all

lemma np_mean_moment_rev:
  assumes "length rate = length pos"
  shows "np_mean (map2 (*) rate (map f pos)) = circular_moment f pos rate"
proof -
  have "map2 (*) rate (map f pos) = map2 (*) (map f pos) rate"
    using assms by (intro nth_equalityI) (simp_all add: mult.commute)
  then show ?thesis
    using np_mean_moment [OF assms, of f] by simp
qed

lemma head_drive_eq:
  assumes "list_all (\<lambda>row. length row = length pos) s"
  shows "head_drive jh dt s (map f pos) =
     Inr (map (\<lambda>row. jh * circular_moment f pos (map (\<lambda>v. v / dt) row)) s)"
  unfolding head_drive_def
proof (rule emap_all_Inr)
  fix row assume "row \<in> set s"
  then have l: "length row = length pos"
    using assms by (simp add: list_all_iff)
  then show "ebind (broadcast2 (*) (map (\<lambda>v. v / dt) row) (map f pos)) (\<lambda>p. Inr (jh * np_mean p))
      = Inr (jh * circular_moment f pos (map (\<lambda>v. v / dt) row))"
    by (simp add: broadcast2_same np_mean_moment_rev)
qed

lemma init_head:
  assumes "list_all (\<lambda>row. length row = length (head_x p)) (head_s p)"
  shows "init n dt ta tt rr r0 al be jj th i0 iext jh (Some p) xflag =
     Inr \<lparr>N = n, delta_t = dt, tau = ta, T = tt, R = rr, r_0 = r0, alpha = al,
          beta = be, J = jj, theta = th, I_ext = iext, I0 = i0, J_head = jh,
          w_head = Some (map (if xflag then cos else sin) (head_x p)),
          I_head = map (\<lambda>row. jh * circular_moment (if xflag then cos else sin) (head_x p)
                                   (map (\<lambda>v. v / dt) row)) (head_s p)\<rparr>"
  using head_drive_eq [OF assms, of jh dt cos] head_drive_eq [OF assms, of jh dt sin]
  by (simp add: init_def)

text \<open>
  Claim C4. With a head population whose spike array has one entry per neuron in every
  row, the constructor stores the weights \<open>cos(position)\<close> when the cosine projection is
  selected and \<open>sin(position)\<close> otherwise, and the drive \<open>I_head\<close> with one entry per row
  of the spike array: \<open>J_head\<close> times the mean over the neurons of that row of the weight
  times the instantaneous rate (spike divided by \<open>delta_t\<close>). In the loop, step \<open>t\<close> reads
  the stored entry \<open>I_head[t]\<close> of the constructed object, subtracts it from every entry of
  the left input and adds it to every entry of the right input (\<open>IL\<close>, \<open>IR\<close> are the inputs
  the same step computes without the head link).
\<close>

theorem head_drive_precomputed:
  assumes "list_all (\<lambda>row. length row = length (head_x p)) (head_s p)"
  shows "\<exists>self. init n dt ta tt rr r0 al be jj th i0 iext jh (Some p) xflag = Inr self
      \<and> w_head self = Some (map (if xflag then cos else sin) (head_x p))
      \<and> length (I_head self) = length (head_s p)
      \<and> (\<forall>t < length (head_s p).
            I_head self ! t = jh * circular_moment (if xflag then cos else sin) (head_x p)
                                     (map (\<lambda>v. v / dt) (head_s p ! t)))
      \<and> (\<forall>st t IL IR.
            input_currents (self\<lparr>w_head := None\<rparr>) st t = Inr (IL, IR) \<and> t < length (I_head self)
            \<longrightarrow> input_currents self st t
                  = Inr (map (\<lambda>i. i - I_head self ! t) IL, map (\<lambda>i. i + I_head self ! t) IR))"
proof -
  let ?w = "map (if xflag then cos else sin) (head_x p)"
  let ?ih = "map (\<lambda>row. jh * circular_moment (if xflag then cos else sin) (head_x p)
                                   (map (\<lambda>v. v / dt) row)) (head_s p)"
  let ?self = "\<lparr>N = n, delta_t = dt, tau = ta, T = tt, R = rr, r_0 = r0, alpha = al,
          beta = be, J = jj, theta = th, I_ext = iext, I0 = i0, J_head = jh,
          w_head = Some ?w, I_head = ?ih\<rparr>"
  have w: "w_head ?self = Some ?w" by simp
  have "\<forall>st t IL IR.
            input_currents (?self\<lparr>w_head := None\<rparr>) st t = Inr (IL, IR) \<and> t < length (I_head ?self)
            \<longrightarrow> input_currents ?self st t
                  = Inr (map (\<lambda>i. i - I_head ?self ! t) IL, map (\<lambda>i. i + I_head ?self ! t) IR)"
  proof (intro allI impI, elim conjE)
    fix st t IL IR
    assume a: "input_currents (?self\<lparr>w_head := None\<rparr>) st t = Inr (IL, IR)"
      and b: "t < length (I_head ?self)"
    show "input_currents ?self st t
                  = Inr (map (\<lambda>i. i - I_head ?self ! t) IL, map (\<lambda>i. i + I_head ?self ! t) IR)"
      using input_currents_no_head [OF a w] b by simp
  qed
  then show ?thesis
    unfolding init_head [OF assms] by (intro exI [of _ ?self]) simp
qed

lemma example_head_moments:
  "circular_moment cos [0, pi] [1, 0] = 1 / 2" "circular_moment cos [0, pi] [1, 1] = 0"
  by (simp_all add: circular_moment_def numeral_2_eq_2)

theorem head_drive_precomputed_witness:
  "\<exists>self. init 2 1 2 3 1 1 1 0 1 0 5 False 1 (Some example_head) True = Inr self
     \<and> w_head self = Some [1, - 1] \<and> I_head self = [1 / 2, 0]
     \<and> input_currents self example_arrays 0 = Inr ([1 / 2, 1 / 2], [3 / 2, 3 / 2])"
proof -
  have h: "list_all (\<lambda>row. length row = length (head_x example_head)) (head_s example_head)"
    by (simp add: example_head_def)
  from head_drive_precomputed [OF h, of 2 1 2 3 1 1 1 0 1 0 5 False 1 True]
  obtain self where s: "init 2 1 2 3 1 1 1 0 1 0 5 False 1 (Some example_head) True = Inr self"
    "w_head self = Some (map cos (head_x example_head))"
    "length (I_head self) = length (head_s example_head)"
    "\<forall>t < length (head_s example_head).
            I_head self ! t = 1 * circular_moment cos (head_x example_head)
                                     (map (\<lambda>v. v / 1) (head_s example_head ! t))"
    "\<forall>st t IL IR.
            input_currents (self\<lparr>w_head := None\<rparr>) st t = Inr (IL, IR) \<and> t < length (I_head self)
            \<longrightarrow> input_currents self st t
                  = Inr (map (\<lambda>i. i - I_head self ! t) IL, map (\<lambda>i. i + I_head self ! t) IR)"
    by auto
  have ih: "I_head self = [1 / 2, 0]"
    using s(3,4) by (auto simp: example_head_def list_eq_iff_nth_eq less_Suc_eq numeral_2_eq_2
        example_head_moments)
  have e: "input_currents (self\<lparr>w_head := None\<rparr>) example_arrays 0 = Inr ([1, 1], [1, 1])"
    using s(1) unfolding init_head [OF h]
    by (auto simp: input_currents_def example_arrays_def
        two_population_recurrent_input_def broadcast2_def np_mean_def)
  have "input_currents self example_arrays 0 = Inr ([1 / 2, 1 / 2], [3 / 2, 3 / 2])"
    using s(5) [rule_format, of example_arrays 0 "[1, 1]" "[1, 1]"] e ih
    by simp
  then show ?thesis
    using s(1,2) ih by (intro exI [of _ self]) (simp add: example_head_def)
qed

section \<open>Ring positions\<close>

lemma np_linspace_eq:
  assumes "2 \<le> num"
  shows "np_linspace start stop num =
     Inr (map (\<lambda>i. start + real i * ((stop - start) / real (nat num - 1))) [0..<nat num])"
proof -
  let ?n = "nat num"
  let ?y = "map (\<lambda>i. real i * ((stop - start) / real (?n - 1)) + start) [0..<?n]"
  have n: "1 < ?n" using assms by simp
  have e: "np_linspace start stop num = Inr (?y[?n - 1 := stop])"
    using assms n by (simp add: np_linspace_def Let_def)
  have "?y[?n - 1 := stop] = map (\<lambda>i. start + real i * ((stop - start) / real (?n - 1))) [0..<?n]"
  proof (rule nth_equalityI)
    show "length (?y[?n - 1 := stop]) = length (map (\<lambda>i. start + real i * ((stop - start) / real (?n - 1))) [0..<?n])"
      by simp
  next
    fix i assume "i < length (?y[?n - 1 := stop])"
    then have i: "i < ?n" by simp
    show "(?y[?n - 1 := stop]) ! i = map (\<lambda>i. start + real i * ((stop - start) / real (?n - 1))) [0..<?n] ! i"
    proof (cases "i = ?n - 1")
      case True
      then show ?thesis using n by simp
    next
      case False
      then show ?thesis using i by simp
    qed
  qed
  then show ?thesis using e by simp
qed

lemma np_linspace_one: "np_linspace start stop 1 = Inr [start]"
  by (simp add: np_linspace_def)

text \<open>
  Claim C7, as amended. The positions depend on \<open>N\<close> only. For every \<open>N\<close> of at least 2
  they are \<open>N\<close> values, the value of index \<open>i\<close> being \<open>i\<close> times the constant step
  \<open>2 * pi / (N - 1)\<close>: evenly spaced, strictly increasing, the first 0 and the last
  \<open>2 * pi\<close>. For \<open>N = 1\<close> the result is the single position 0.
\<close>

theorem positions_evenly_spaced:
  "(\<forall>other :: TwoPopulationSimulation. N other = N self \<longrightarrow> initialize_positions other = initialize_positions self)
   \<and> (N self = 1 \<longrightarrow> initialize_positions self = Inr [0])
   \<and> (2 \<le> N self \<longrightarrow>
        (\<exists>xs. initialize_positions self = Inr xs \<and> length xs = nat (N self)
           \<and> (\<forall>i < nat (N self). xs ! i = real i * (2 * pi / real (nat (N self) - 1)))
           \<and> sorted_wrt (<) xs \<and> hd xs = 0 \<and> last xs = 2 * pi))"
proof (intro conjI impI allI)
  fix other :: TwoPopulationSimulation assume "N other = N self"
  then show "initialize_positions other = initialize_positions self"
    by (simp add: initialize_positions_def)
next
  assume "N self = 1"
  then show "initialize_positions self = Inr [0]"
    by (simp add: initialize_positions_def np_linspace_one)
next
  assume n2: "2 \<le> N self"
  let ?n = "nat (N self)"
  let ?d = "2 * pi / real (?n - 1)"
  let ?xs = "map (\<lambda>i. real i * ?d) [0..<?n]"
  have n: "1 < ?n" using n2 by simp
  have d: "0 < ?d" using n by simp
  have e: "initialize_positions self = Inr ?xs"
    using np_linspace_eq [OF n2, of 0 "2 * pi"] by (simp add: initialize_positions_def)
  have s: "sorted_wrt (<) ?xs"
  proof -
    have "real i * ?d < real j * ?d" if "i < j" for i j :: nat
      using that d by (intro mult_strict_right_mono) simp_all
    then show ?thesis
      by (simp add: sorted_wrt_iff_nth_less del: times_divide_eq_right)
  qed
  have ne: "?xs \<noteq> []"
    using n by simp
  have "hd ?xs = ?xs ! 0"
    by (rule hd_conv_nth [OF ne])
  also have "\<dots> = 0"
    using n by simp
  finally have h: "hd ?xs = 0" .
  have "last ?xs = ?xs ! (length ?xs - 1)"
    by (rule last_conv_nth [OF ne])
  also have "\<dots> = real (?n - 1) * ?d"
    using n by simp
  also have "\<dots> = 2 * pi"
    using n by simp
  finally have l: "last ?xs = 2 * pi" .
  show "\<exists>xs. initialize_positions self = Inr xs \<and> length xs = ?n
           \<and> (\<forall>i < ?n. xs ! i = real i * ?d)
           \<and> sorted_wrt (<) xs \<and> hd xs = 0 \<and> last xs = 2 * pi"
    using e s h l by (intro exI [of _ ?xs]) (simp del: times_divide_eq_right)
qed

theorem positions_evenly_spaced_witness:
  "initialize_positions example_sim = Inr [0, 2 * pi]
   \<and> initialize_positions (example_sim\<lparr>N := 1\<rparr>) = Inr [0]"
proof -
  have n: "N example_sim = 2" "N (example_sim\<lparr>N := 1\<rparr>) = 1"
    by (simp_all add: example_sim_def)
  have a: "initialize_positions (example_sim\<lparr>N := 1\<rparr>) = Inr [0]"
    by (rule positions_evenly_spaced [of "example_sim\<lparr>N := 1\<rparr>",
          THEN conjunct2, THEN conjunct1, THEN mp, OF n(2)])
  have n2: "2 \<le> N example_sim"
    using n(1) by simp
  from positions_evenly_spaced [of example_sim, THEN conjunct2, THEN conjunct2, THEN mp, OF n2]
  obtain xs where x: "initialize_positions example_sim = Inr xs"
    "length xs = nat (N example_sim)"
    "\<forall>i < nat (N example_sim). xs ! i = real i * (2 * pi / real (nat (N example_sim) - 1))"
    by blast
  have "xs ! 0 = 0" "xs ! 1 = 2 * pi"
    using x(3) n(1) by simp_all
  moreover have "length xs = 2"
    using x(2) n(1) by simp
  ultimately have "xs = [0, 2 * pi]"
    by (cases xs; cases "tl xs") auto
  then show ?thesis using x(1) a by simp
qed

text \<open>
  The claim as stated (every positive \<open>N\<close>) fails at \<open>N = 1\<close>: the only position is 0, so
  the last value is not \<open>2 * pi\<close>.
\<close>

theorem positions_single_neuron_counterexample:
  "0 < N (example_sim\<lparr>N := 1\<rparr>)
   \<and> initialize_positions (example_sim\<lparr>N := 1\<rparr>) = Inr [0]
   \<and> last [0 :: real] \<noteq> 2 * pi"
  by (simp add: initialize_positions_def np_linspace_one)

section \<open>One call of update\<close>

lemma well_shaped_shape:
  assumes "well_shaped k n st"
  shows "shape k n (hL st)" "shape k n (rL st)" "shape k n (sL st)"
    "shape k n (hR st)" "shape k n (rR st)" "shape k n (sR st)"
    "length (xL st) = n" "length (xR st) = n"
  using assms by (simp_all add: well_shaped_def)

lemma well_shaped_length:
  assumes "well_shaped k n st"
  shows "length (hL st) = k" "length (rL st) = k" "length (sL st) = k"
    "length (hR st) = k" "length (rR st) = k" "length (sR st) = k"
  using well_shaped_shape [OF assms] by (simp_all add: shape_length)

lemma well_shaped_row:
  assumes "well_shaped k n st" "i < k"
  shows "length (hL st ! i) = n" "length (rL st ! i) = n" "length (sL st ! i) = n"
    "length (hR st ! i) = n" "length (rR st ! i) = n" "length (sR st ! i) = n"
  using well_shaped_shape [OF assms(1)] assms(2) by (simp_all add: shape_nth)

lemma update_rows_tau_zero:
  assumes "t < length h" "tau self = 0"
  shows "update_rows env self t inp h r s gen = Inl ZeroDivisionError"
  using assms by (simp add: update_rows_def py_truediv_def)

lemma update_rows_Inr:
  assumes "shape k n h" "shape k n r" "shape k n s" "length inp = n" "t + 1 < k"
    and "update_rows env self t inp h r s gen = Inr ((h1, r1, s1), gen1)"
  shows "tau self \<noteq> 0
    \<and> h1 = h[t + 1 := euler_row self (h ! t) inp]
    \<and> r1 = r[t + 1 := rate_row env self (euler_row self (h ! t) inp)]
    \<and> s1 = s[t + 1 := fst (bernoulli_row env
                 (map (\<lambda>v. v * delta_t self) (rate_row env self (euler_row self (h ! t) inp))) gen)]
    \<and> gen1 = snd (bernoulli_row env
                 (map (\<lambda>v. v * delta_t self) (rate_row env self (euler_row self (h ! t) inp))) gen)
    \<and> list_all (\<lambda>q. 0 \<le> q \<and> q \<le> 1)
         (map (\<lambda>v. v * delta_t self) (rate_row env self (euler_row self (h ! t) inp)))"
proof -
  have t: "t < length h"
    using assms(1,5) by (simp add: shape_length)
  have tau: "tau self \<noteq> 0"
    using update_rows_tau_zero [OF t, of self env inp r s gen] assms(6) by auto
  show ?thesis
    using assms(6) tau
    unfolding update_rows_shape [OF assms(1-5) tau]
    by (simp add: Let_def split: if_splits)
qed

lemma update_rows_result_shape:
  assumes "shape k n h" "shape k n r" "shape k n s" "length inp = n" "t + 1 < k"
    and "update_rows env self t inp h r s gen = Inr ((h1, r1, s1), gen1)"
  shows "shape k n h1 \<and> shape k n r1 \<and> shape k n s1"
proof -
  have l: "length (euler_row self (h ! t) inp) = n"
    using assms(1,4,5) by (simp add: euler_row_length shape_nth)
  show ?thesis
    using update_rows_Inr [OF assms] assms(1-3) l
    by (simp add: shape_update rate_row_def bernoulli_row_length)
qed

lemma update_Inr:
  assumes "well_shaped k n st" "length IL = n" "length IR = n" "t + 1 < k"
    and "update env self t IL IR st gen = Inr (st1, gen1)"
  shows "\<exists>gen0.
      tau self \<noteq> 0
    \<and> gen0 = snd (bernoulli_row env
                 (map (\<lambda>v. v * delta_t self) (rate_row env self (euler_row self (hL st ! t) IL))) gen)
    \<and> gen1 = snd (bernoulli_row env
                 (map (\<lambda>v. v * delta_t self) (rate_row env self (euler_row self (hR st ! t) IR))) gen0)
    \<and> st1 = st\<lparr>hL := (hL st)[t + 1 := euler_row self (hL st ! t) IL],
               rL := (rL st)[t + 1 := rate_row env self (euler_row self (hL st ! t) IL)],
               sL := (sL st)[t + 1 := fst (bernoulli_row env
                 (map (\<lambda>v. v * delta_t self) (rate_row env self (euler_row self (hL st ! t) IL))) gen)],
               hR := (hR st)[t + 1 := euler_row self (hR st ! t) IR],
               rR := (rR st)[t + 1 := rate_row env self (euler_row self (hR st ! t) IR)],
               sR := (sR st)[t + 1 := fst (bernoulli_row env
                 (map (\<lambda>v. v * delta_t self) (rate_row env self (euler_row self (hR st ! t) IR))) gen0)]\<rparr>"
proof -
  from assms(5) obtain h1 r1 s1 g1 h2 r2 s2 g2 where
    l: "update_rows env self t IL (hL st) (rL st) (sL st) gen = Inr ((h1, r1, s1), g1)" and
    r: "update_rows env self t IR (hR st) (rR st) (sR st) g1 = Inr ((h2, r2, s2), g2)" and
    e: "st1 = st\<lparr>hL := h1, rL := r1, sL := s1, hR := h2, rR := r2, sR := s2\<rparr>" "gen1 = g2"
    by (auto simp: update_def ebind_eq_Inr)
  have sh: "shape k n (hL st)" "shape k n (rL st)" "shape k n (sL st)"
    "shape k n (hR st)" "shape k n (rR st)" "shape k n (sR st)"
    using assms(1) by (simp_all add: well_shaped_def)
  note a = update_rows_Inr [OF sh(1-3) assms(2,4) l]
  note b = update_rows_Inr [OF sh(4-6) assms(3,4) r]
  show ?thesis
    using a b e by simp
qed

lemma update_well_shaped:
  assumes "well_shaped k n st" "length IL = n" "length IR = n" "t + 1 < k"
    and "update env self t IL IR st gen = Inr (st1, gen1)"
  shows "well_shaped k n st1"
proof -
  have t: "t < k" using assms(4) by simp
  have l: "length (euler_row self (hL st ! t) IL) = n" "length (euler_row self (hR st ! t) IR) = n"
    using assms(2,3) well_shaped_row [OF assms(1) t] by (simp_all add: euler_row_length)
  from update_Inr [OF assms] show ?thesis
    using well_shaped_shape [OF assms(1)] l
    by (auto simp: well_shaped_def shape_update rate_row_def bernoulli_row_length)
qed

text \<open>
  Claim C1. One call of \<open>update\<close> at step \<open>t\<close>, with \<open>t + 1\<close> a row of the arrays (so \<open>t\<close>
  from 0 to \<open>num_steps - 2\<close>), on arrays of shape \<open>(k, n)\<close> and inputs of \<open>n\<close> entries: for
  each population and each neuron \<open>i\<close>, the new row \<open>t + 1\<close> of \<open>h\<close> is
  \<open>h[t][i] + (delta_t / tau) * (- h[t][i] + R * I[i])\<close> with that population's own input
  \<open>I\<close>; row \<open>t + 1\<close> of \<open>r\<close> is \<open>r_0 * g(h[t+1], alpha, beta)\<close>; row \<open>t + 1\<close> of \<open>s\<close> is one
  Bernoulli draw per neuron with success probability \<open>r[t+1][i] * delta_t\<close>, the left
  population drawing first and the right population from the generator the left one
  leaves. Every other row, row 0 among them, is left as it was.
\<close>

theorem update_applies_euler_rule:
  assumes "well_shaped k n st" "length IL = n" "length IR = n" "t + 1 < k"
    and "update env self t IL IR st gen = Inr (st1, gen1)"
  shows "(\<forall>i < n. hL st1 ! (t + 1) ! i
            = hL st ! t ! i + delta_t self / tau self * (- hL st ! t ! i + R self * IL ! i))
    \<and> (\<forall>i < n. hR st1 ! (t + 1) ! i
            = hR st ! t ! i + delta_t self / tau self * (- hR st ! t ! i + R self * IR ! i))
    \<and> length (hL st1 ! (t + 1)) = n \<and> length (hR st1 ! (t + 1)) = n
    \<and> rL st1 ! (t + 1) = map (\<lambda>v. r_0 self * g env v (alpha self) (beta self)) (hL st1 ! (t + 1))
    \<and> rR st1 ! (t + 1) = map (\<lambda>v. r_0 self * g env v (alpha self) (beta self)) (hR st1 ! (t + 1))
    \<and> sL st1 ! (t + 1)
         = fst (bernoulli_row env (map (\<lambda>v. v * delta_t self) (rL st1 ! (t + 1))) gen)
    \<and> sR st1 ! (t + 1)
         = fst (bernoulli_row env (map (\<lambda>v. v * delta_t self) (rR st1 ! (t + 1)))
                  (snd (bernoulli_row env (map (\<lambda>v. v * delta_t self) (rL st1 ! (t + 1))) gen)))
    \<and> (\<forall>j. j \<noteq> t + 1 \<longrightarrow>
          hL st1 ! j = hL st ! j \<and> rL st1 ! j = rL st ! j \<and> sL st1 ! j = sL st ! j \<and>
          hR st1 ! j = hR st ! j \<and> rR st1 ! j = rR st ! j \<and> sR st1 ! j = sR st ! j)
    \<and> hL st1 ! 0 = hL st ! 0 \<and> rL st1 ! 0 = rL st ! 0 \<and> sL st1 ! 0 = sL st ! 0
    \<and> hR st1 ! 0 = hR st ! 0 \<and> rR st1 ! 0 = rR st ! 0 \<and> sR st1 ! 0 = sR st ! 0"
proof -
  have t: "t < k" using assms(4) by simp
  have k: "t + 1 < length (hL st)" "t + 1 < length (rL st)" "t + 1 < length (sL st)"
    "t + 1 < length (hR st)" "t + 1 < length (rR st)" "t + 1 < length (sR st)"
    using assms(4) by (simp_all add: well_shaped_length [OF assms(1)])
  have l: "length (hL st ! t) = n" "length (hR st ! t) = n"
    using well_shaped_row [OF assms(1) t] by simp_all
  have el: "\<forall>i < n. euler_row self (hL st ! t) IL ! i
      = hL st ! t ! i + delta_t self / tau self * (- hL st ! t ! i + R self * IL ! i)"
    using l assms(2) by (simp add: euler_row_def)
  have er: "\<forall>i < n. euler_row self (hR st ! t) IR ! i
      = hR st ! t ! i + delta_t self / tau self * (- hR st ! t ! i + R self * IR ! i)"
    using l assms(3) by (simp add: euler_row_def)
  have ll: "length (euler_row self (hL st ! t) IL) = n" "length (euler_row self (hR st ! t) IR) = n"
    using l assms(2,3) by (simp_all add: euler_row_length)
  from update_Inr [OF assms] obtain gen0 where
    u: "gen0 = snd (bernoulli_row env
                 (map (\<lambda>v. v * delta_t self) (rate_row env self (euler_row self (hL st ! t) IL))) gen)"
    "st1 = st\<lparr>hL := (hL st)[t + 1 := euler_row self (hL st ! t) IL],
               rL := (rL st)[t + 1 := rate_row env self (euler_row self (hL st ! t) IL)],
               sL := (sL st)[t + 1 := fst (bernoulli_row env
                 (map (\<lambda>v. v * delta_t self) (rate_row env self (euler_row self (hL st ! t) IL))) gen)],
               hR := (hR st)[t + 1 := euler_row self (hR st ! t) IR],
               rR := (rR st)[t + 1 := rate_row env self (euler_row self (hR st ! t) IR)],
               sR := (sR st)[t + 1 := fst (bernoulli_row env
                 (map (\<lambda>v. v * delta_t self) (rate_row env self (euler_row self (hR st ! t) IR))) gen0)]\<rparr>"
    by blast
  show ?thesis
    unfolding u(2) using k el er ll u(1)
    by (simp add: rate_row_def)
qed

section \<open>Double precision\<close>

text \<open>
  Facts about the rounding to a double: its sign, the form of a double (a significand of
  53 bits times a power of two), and that the rounded quotient of a double by a larger
  one stays below 1.
\<close>

lemma round_half_even_bounds: "\<lfloor>y\<rfloor> \<le> round_half_even y \<and> round_half_even y \<le> \<lfloor>y\<rfloor> + 1"
  by (simp add: round_half_even_def Let_def)

lemma round_half_even_le: "y \<le> of_int m \<Longrightarrow> round_half_even y \<le> m"
proof -
  assume a: "y \<le> of_int m"
  show ?thesis
  proof (cases "y = of_int m")
    case True
    then show ?thesis by (simp add: round_half_even_def)
  next
    case False
    then have "y < of_int m" using a by simp
    then have "\<lfloor>y\<rfloor> < m" by (simp add: floor_less_iff)
    then show ?thesis
      using round_half_even_bounds [of y] by linarith
  qed
qed

lemma round_half_even_ge: "of_int m \<le> y \<Longrightarrow> m \<le> round_half_even y"
  using round_half_even_bounds [of y] by (meson le_floor_iff order_trans)

lemma round_half_even_of_int [simp]: "round_half_even (of_int m) = m"
  by (simp add: round_half_even_def)

lemma log2_floor_bounds:
  assumes "0 < x"
  shows "2 powr of_int \<lfloor>log 2 x\<rfloor> \<le> x" "x < 2 powr (of_int \<lfloor>log 2 x\<rfloor> + 1)"
proof -
  have "2 powr of_int \<lfloor>log 2 x\<rfloor> \<le> 2 powr log 2 x"
    by (intro powr_mono) simp_all
  then show "2 powr of_int \<lfloor>log 2 x\<rfloor> \<le> x"
    using assms by simp
  have "2 powr log 2 x < 2 powr (of_int \<lfloor>log 2 x\<rfloor> + 1)"
    by (intro powr_less_mono) simp_all
  then show "x < 2 powr (of_int \<lfloor>log 2 x\<rfloor> + 1)"
    using assms by simp
qed

lemma log2_floor_eq:
  assumes "0 < x" "2 powr of_int e \<le> x" "x < 2 powr (of_int e + 1)"
  shows "\<lfloor>log 2 x\<rfloor> = e"
  using assms floor_log_eq_powr_iff [of x 2 e] by simp

lemma binary64_eval:
  assumes "0 < x" "P = 2 powr of_int e" "P \<le> x" "x < 2 * P"
  shows "binary64 x = of_int (round_half_even (x * 2 ^ 52 / P)) * P / 2 ^ 52"
proof -
  have "x < 2 powr (of_int e + 1)"
    using assms(2,4) by (simp add: powr_add)
  then have e: "\<lfloor>log 2 x\<rfloor> = e"
    using log2_floor_eq [OF assms(1)] assms(2,3) by simp
  have u: "2 powr (of_int e - 52) = P / 2 ^ 52"
    using assms(2) by (simp add: powr_diff)
  show ?thesis
    using assms(1) by (simp add: binary64_def e u)
qed

lemma binary64_pos:
  assumes "0 < x"
  shows "\<exists>n e. binary64 x = of_int n * 2 powr of_int e \<and> 2 ^ 52 \<le> n \<and> n \<le> 2 ^ 53
     \<and> e = \<lfloor>log 2 x\<rfloor> - 52"
proof -
  let ?e = "\<lfloor>log 2 x\<rfloor>"
  let ?P = "(2::real) powr of_int ?e"
  have P: "0 < ?P" by simp
  note b = log2_floor_bounds [OF assms]
  have b2: "x < 2 * ?P"
    using b(2) by (simp add: powr_add)
  let ?y = "x * 2 ^ 52 / ?P"
  have "of_int (2 ^ 52) \<le> ?y"
    using b(1) P by (simp add: field_simps)
  then have l: "2 ^ 52 \<le> round_half_even ?y"
    by (rule round_half_even_ge)
  have "?y \<le> of_int (2 ^ 53)"
    using b2 P by (simp add: field_simps)
  then have h: "round_half_even ?y \<le> 2 ^ 53"
    by (rule round_half_even_le)
  have "binary64 x = of_int (round_half_even ?y) * ?P / 2 ^ 52"
    by (rule binary64_eval [OF assms refl b(1) b2])
  also have "\<dots> = of_int (round_half_even ?y) * 2 powr of_int (?e - 52)"
    by (simp add: powr_diff)
  finally show ?thesis
    using l h by blast
qed

lemma binary64_zero [simp]: "binary64 0 = 0"
  by (simp add: binary64_def)

lemma binary64_minus: "binary64 (- x) = - binary64 x"
proof (cases "x = 0")
  case True
  then show ?thesis by simp
next
  case False
  have r: "round_half_even (- y) = - round_half_even y" for y
  proof (cases "y = of_int \<lfloor>y\<rfloor>")
    case True
    then obtain m :: int where m: "y = of_int m" by blast
    have "round_half_even (of_int (- m)) = - m"
      by (rule round_half_even_of_int)
    then show ?thesis
      unfolding m by simp
  next
    case False
    then have lt: "of_int \<lfloor>y\<rfloor> < y"
      using of_int_floor_le [of y] by linarith
    have "\<lfloor>- y\<rfloor> = - \<lfloor>y\<rfloor> - 1"
    proof (rule floor_unique)
      show "of_int (- \<lfloor>y\<rfloor> - 1) \<le> - y"
        using floor_correct [of y] by simp linarith
      show "- y < of_int (- \<lfloor>y\<rfloor> - 1) + 1"
        using lt by simp
    qed
    then have f: "\<lfloor>- y\<rfloor> = - \<lfloor>y\<rfloor> - 1" .
    define d where "d = y - of_int \<lfloor>y\<rfloor>"
    have d': "- y - of_int (- \<lfloor>y\<rfloor> - 1) = 1 - d"
      by (simp add: d_def)
    have p: "even (- \<lfloor>y\<rfloor> - 1) \<longleftrightarrow> odd \<lfloor>y\<rfloor>"
      by simp
    consider "d < 1 / 2" | "1 / 2 < d" | "d = 1 / 2"
      by linarith
    then show ?thesis
    proof cases
      case 1
      then show ?thesis
        unfolding round_half_even_def Let_def f d' d_def [symmetric] by simp
    next
      case 2
      then show ?thesis
        unfolding round_half_even_def Let_def f d' d_def [symmetric] by simp
    next
      case 3
      then show ?thesis
        unfolding round_half_even_def Let_def f d' d_def [symmetric] p by simp
    qed
  qed
  show ?thesis
    using False by (simp add: binary64_def Let_def r)
qed

lemma binary64_pos_pos: "0 < x \<Longrightarrow> 0 < binary64 x"
proof -
  assume "0 < x"
  from binary64_pos [OF this] obtain n e where
    b: "binary64 x = of_int n * 2 powr of_int e" and n: "2 ^ 52 \<le> n"
    by blast
  have "(0::int) < 2 ^ 52" by simp
  then have "0 < n" using n by linarith
  then show ?thesis
    unfolding b by simp
qed

lemma binary64_neg_neg: "x < 0 \<Longrightarrow> binary64 x < 0"
  using binary64_pos_pos [of "- x"] by (simp add: binary64_minus)

lemma binary64_eq_zero_iff [simp]: "binary64 x = 0 \<longleftrightarrow> x = 0"
proof
  assume z: "binary64 x = 0"
  show "x = 0"
  proof (rule ccontr)
    assume "x \<noteq> 0"
    then consider "0 < x" | "x < 0" by linarith
    then show False
    proof cases
      case 1
      then show False using binary64_pos_pos [of x] z by simp
    next
      case 2
      then show False using binary64_neg_neg [of x] z by simp
    qed
  qed
next
  assume "x = 0"
  then show "binary64 x = 0" by simp
qed

lemma binary64_nonneg: "0 \<le> x \<Longrightarrow> 0 \<le> binary64 x"
  using binary64_pos_pos [of x] by (cases "x = 0") simp_all

lemma binary64_nonpos: "x \<le> 0 \<Longrightarrow> binary64 x \<le> 0"
  using binary64_neg_neg [of x] by (cases "x = 0") simp_all

lemma int_bounds_real:
  fixes n :: int
  assumes "2 ^ 52 \<le> n" "n < 2 ^ 53"
  shows "(2::real) ^ 52 \<le> of_int n" "(of_int n :: real) \<le> 2 ^ 53 - 1" "0 < (of_int n :: real)"
proof -
  have "(of_int (2 ^ 52) :: real) \<le> of_int n"
    using assms(1) by (simp only: of_int_le_iff)
  then show l: "(2::real) ^ 52 \<le> of_int n" by simp
  have "n \<le> 2 ^ 53 - 1" using assms(2) by simp
  then have "(of_int n :: real) \<le> of_int (2 ^ 53 - 1)"
    by (simp only: of_int_le_iff)
  then show "(of_int n :: real) \<le> 2 ^ 53 - 1" by simp
  have "(0::real) < 2 ^ 52" by simp
  then show "0 < (of_int n :: real)" using l by linarith
qed

lemma binary64_normal:
  assumes "0 < x"
  shows "\<exists>n e. binary64 x = of_int n * 2 powr of_int e \<and> 2 ^ 52 \<le> n \<and> n < 2 ^ 53"
proof -
  from binary64_pos [OF assms] obtain n e where
    b: "binary64 x = of_int n * 2 powr of_int e" and n: "2 ^ 52 \<le> n" "n \<le> 2 ^ 53"
    by blast
  show ?thesis
  proof (cases "n = 2 ^ 53")
    case True
    have "binary64 x = of_int (2 ^ 52) * 2 powr of_int (e + 1)"
      unfolding b True by (simp add: powr_add)
    moreover have "(2::int) ^ 52 \<le> 2 ^ 52 \<and> (2::int) ^ 52 < 2 ^ 53"
      by simp
    ultimately show ?thesis
      by blast
  next
    case False
    then have "n < 2 ^ 53" using n(2) by linarith
    then show ?thesis
      using b n(1) by blast
  qed
qed

lemma quotient_same_exponent:
  fixes n m :: int
  assumes "2 ^ 52 \<le> m" "m < 2 ^ 53" "n < m" "0 < n"
  shows "(of_int n :: real) / of_int m \<le> 1 - 1 / 2 ^ 53"
proof -
  note mb = int_bounds_real [OF assms(1,2)]
  have "n \<le> m - 1" using assms(3) by simp
  then have "(of_int n :: real) \<le> of_int (m - 1)"
    by (simp only: of_int_le_iff)
  then have le: "(of_int n :: real) \<le> of_int m - 1" by simp
  have "(of_int n :: real) / of_int m \<le> (of_int m - 1) / of_int m"
    using le mb(3) by (simp add: divide_right_mono)
  also have "\<dots> = 1 - 1 / of_int m"
    using mb(3) by (simp add: field_simps)
  also have "\<dots> \<le> 1 - 1 / 2 ^ 53"
  proof -
    have "(of_int m :: real) \<le> 2 ^ 53" using mb(2) by simp
    then have "1 / (2::real) ^ 53 \<le> 1 / of_int m"
      using mb(3) by (intro divide_left_mono) simp_all
    then show ?thesis by simp
  qed
  finally show ?thesis .
qed

lemma quotient_of_doubles_below_one:
  fixes n m e k :: int and a b :: real
  assumes a: "a = of_int n * 2 powr of_int e" "2 ^ 52 \<le> n" "n < 2 ^ 53"
    and b: "b = of_int m * 2 powr of_int k" "2 ^ 52 \<le> m" "m < 2 ^ 53"
    and ab: "a < b"
  shows "a / b \<le> 1 - 1 / 2 ^ 53"
proof -
  define E :: real where "E = 2 powr of_int e"
  define K :: real where "K = 2 powr of_int k"
  have pos: "0 < E" "0 < K"
    by (simp_all add: E_def K_def)
  note nb = int_bounds_real [OF a(2,3)]
  note mb = int_bounds_real [OF b(2,3)]
  have a': "a = of_int n * E" and b': "b = of_int m * K"
    using a(1) b(1) by (simp_all add: E_def K_def)
  have bpos: "0 < b"
    unfolding b' using mb(3) pos(2) by simp
  have goal: "a / b \<le> 1 - 1 / 2 ^ 53" if "a \<le> (1 - 1 / 2 ^ 53) * b"
    using that bpos by (simp add: pos_divide_le_eq)
  consider "e = k" | "e < k" | "k < e" by linarith
  then show ?thesis
  proof cases
    case 1
    then have EK: "E = K" by (simp add: E_def K_def)
    have "of_int n * K < of_int m * K"
      using ab unfolding a' b' EK .
    then have "(of_int n :: real) < of_int m"
      using pos(2) by (simp only: mult_less_cancel_right_pos)
    then have nm: "n < m" by (simp only: of_int_less_iff)
    have npos: "0 < n"
      using nb(3) by (simp only: of_int_0_less_iff)
    have "a / b = of_int n / of_int m"
      unfolding a' b' EK using pos(2) by simp
    then show ?thesis
      using quotient_same_exponent [OF b(2,3) nm npos] by simp
  next
    case 2
    then have "of_int e \<le> (of_int k :: real) - 1" by linarith
    then have "(2::real) powr of_int e \<le> 2 powr (of_int k - 1)"
      by (intro powr_mono) simp_all
    then have p: "E \<le> K / 2"
      by (simp add: powr_diff E_def K_def)
    have "of_int n * E \<le> (2 ^ 53 - 1) * (K / 2)"
      using nb(2) p pos(1) nb(3) by (intro mult_mono) simp_all
    then have 1: "a \<le> (2 ^ 53 - 1) / 2 * K"
      unfolding a' by simp
    have "2 ^ 52 * K \<le> of_int m * K"
      using mb(1) pos(2) by (intro mult_right_mono) simp_all
    then have 2: "2 ^ 52 * K \<le> b"
      unfolding b' .
    have "a \<le> (1 - 1 / 2 ^ 53) * b"
      using 1 2 by simp
    then show ?thesis by (rule goal)
  next
    case 3
    then have "(of_int k :: real) + 1 \<le> of_int e" by linarith
    then have "(2::real) powr (of_int k + 1) \<le> 2 powr of_int e"
      by (intro powr_mono) simp_all
    then have p: "2 * K \<le> E"
      by (simp add: powr_add E_def K_def)
    have "of_int m * K \<le> (2 ^ 53 - 1) * K"
      using mb(2) pos(2) by (intro mult_right_mono) simp_all
    then have 1: "b \<le> (2 ^ 53 - 1) * K"
      unfolding b' .
    have "2 ^ 52 * E \<le> of_int n * E"
      using nb(1) pos(1) by (intro mult_right_mono) simp_all
    then have 2: "2 ^ 52 * E \<le> a"
      unfolding a' .
    have "b \<le> a"
      using 1 2 p pos by simp
    then show ?thesis using ab by simp
  qed
qed

lemma binary64_below_one:
  assumes "q \<le> 1 - 1 / 2 ^ 53"
  shows "binary64 q < 1"
proof (cases "0 < q")
  case False
  then have "binary64 q \<le> 0"
    by (intro binary64_nonpos) simp
  then show ?thesis by simp
next
  case True
  have q1: "q < 1" using assms by simp
  have "log 2 q < 0" using True q1 by simp
  then have e: "\<lfloor>log 2 q\<rfloor> \<le> - 1"
    by (simp add: floor_le_iff)
  show ?thesis
  proof (cases "\<lfloor>log 2 q\<rfloor> = - 1")
    case True
    note b = log2_floor_bounds [OF \<open>0 < q\<close>, unfolded True]
    have P: "(1 / 2 :: real) = 2 powr of_int (- 1)"
      by (simp add: powr_minus_divide)
    have lo: "1 / 2 \<le> q"
      using b(1) by (simp add: powr_minus_divide)
    have hi: "q < 2 * (1 / 2)"
      using q1 by simp
    have ev: "binary64 q = of_int (round_half_even (q * 2 ^ 52 / (1 / 2))) * (1 / 2) / 2 ^ 52"
      by (rule binary64_eval [OF \<open>0 < q\<close> P lo hi])
    have "q * 2 ^ 52 / (1 / 2) \<le> of_int (2 ^ 53 - 1)"
      using assms by simp
    then have "round_half_even (q * 2 ^ 52 / (1 / 2)) \<le> 2 ^ 53 - 1"
      by (rule round_half_even_le)
    then have "(of_int (round_half_even (q * 2 ^ 52 / (1 / 2))) :: real) \<le> of_int (2 ^ 53 - 1)"
      by (simp only: of_int_le_iff)
    then have "(of_int (round_half_even (q * 2 ^ 52 / (1 / 2))) :: real) \<le> 2 ^ 53 - 1"
      by simp
    then show ?thesis
      unfolding ev by simp
  next
    case False
    then have e2: "\<lfloor>log 2 q\<rfloor> \<le> - 2" using e by linarith
    from binary64_pos [OF \<open>0 < q\<close>] obtain n k where
      b: "binary64 q = of_int n * 2 powr of_int k" and n: "n \<le> 2 ^ 53"
      and k: "k = \<lfloor>log 2 q\<rfloor> - 52"
      by blast
    have "(of_int n :: real) \<le> of_int (2 ^ 53)"
      using n by (simp only: of_int_le_iff)
    then have n': "(of_int n :: real) \<le> 2 ^ 53" by simp
    have "k \<le> - 54"
      using k e2 by linarith
    then have "(of_int k :: real) \<le> of_int (- 54)"
      by (simp only: of_int_le_iff)
    then have "of_int k \<le> (- 54 :: real)"
      by simp
    then have "(2::real) powr of_int k \<le> 2 powr (- 54)"
      by (intro powr_mono) simp_all
    then have p: "(2::real) powr of_int k \<le> 1 / 2 ^ 54"
      by (simp add: powr_minus_divide)
    have "of_int n * 2 powr of_int k \<le> (2 ^ 53 * (1 / 2 ^ 54) :: real)"
      using n' p by (intro mult_mono) simp_all
    then show ?thesis
      unfolding b by simp
  qed
qed

lemma float_truediv_below_one:
  assumes "binary64 a < binary64 b" "0 < binary64 b"
  shows "float_truediv a b < 1"
proof (cases "0 < binary64 a")
  case False
  then have "binary64 a / binary64 b \<le> 0"
    using assms(2) by (simp add: divide_le_0_iff)
  then have "binary64 (binary64 a / binary64 b) \<le> 0"
    by (rule binary64_nonpos)
  then show ?thesis
    by (simp add: float_truediv_def)
next
  case True
  have a: "0 < a"
    using True binary64_nonpos [of a] by (cases "0 < a") simp_all
  have b: "0 < b"
    using assms(2) binary64_nonpos [of b] by (cases "0 < b") simp_all
  from binary64_normal [OF a] obtain n e where
    ra: "binary64 a = of_int n * 2 powr of_int e" "2 ^ 52 \<le> n" "n < 2 ^ 53"
    by blast
  from binary64_normal [OF b] obtain m k where
    rb: "binary64 b = of_int m * 2 powr of_int k" "2 ^ 52 \<le> m" "m < 2 ^ 53"
    by blast
  have "binary64 a / binary64 b \<le> 1 - 1 / 2 ^ 53"
    by (rule quotient_of_doubles_below_one [OF ra rb assms(1)])
  then show ?thesis
    unfolding float_truediv_def by (rule binary64_below_one)
qed

text \<open>
  Values of the rounding: the doubles that \<open>0.1\<close> and \<open>0.3\<close> denote, and the quotients
  \<open>0.3 / 0.1\<close> (2.9999999999999996), \<open>1.0 / 0.1\<close> (10.0) and \<open>10 / 0.1\<close> (100.0) as the
  machine computes them.
\<close>

lemma binary64_value:
  assumes "P = 2 powr of_int e" "0 < x" "P \<le> x" "x < 2 * P"
    and "round_half_even (x * 2 ^ 52 / P) = n"
  shows "binary64 x = of_int n * P / 2 ^ 52"
  using binary64_eval [OF assms(2,1,3,4)] assms(5) by simp

lemma binary64_one_tenth: "binary64 (1 / 10) = 3602879701896397 / 36028797018963968"
proof -
  have P: "(1 / 16 :: real) = 2 powr of_int (- 4)"
    by (simp add: powr_minus_divide)
  have "binary64 (1 / 10) = of_int 7205759403792794 * (1 / 16) / 2 ^ 52"
    by (rule binary64_value [OF P]) (simp_all add: round_half_even_def Let_def)
  then show ?thesis
    by simp
qed

lemma binary64_three_tenths: "binary64 (3 / 10) = 5404319552844595 / 18014398509481984"
proof -
  have P: "(1 / 4 :: real) = 2 powr of_int (- 2)"
    by (simp add: powr_minus_divide)
  have "binary64 (3 / 10) = of_int 5404319552844595 * (1 / 4) / 2 ^ 52"
    by (rule binary64_value [OF P]) (simp_all add: round_half_even_def Let_def)
  then show ?thesis
    by simp
qed

lemma binary64_small_int:
  "binary64 1 = 1" "binary64 3 = 3" "binary64 10 = 10" "binary64 (1 / 2) = 1 / 2"
proof -
  have P: "(1 :: real) = 2 powr of_int 0" "(2 :: real) = 2 powr of_int 1"
    "(8 :: real) = 2 powr of_int 3" "(1 / 2 :: real) = 2 powr of_int (- 1)"
    by (simp_all add: powr_minus_divide)
  have "binary64 1 = of_int (2 ^ 52) * 1 / 2 ^ 52"
    by (rule binary64_value [OF P(1)]) (simp_all add: round_half_even_def Let_def)
  then show "binary64 1 = 1" by simp
  have "binary64 3 = of_int (3 * 2 ^ 51) * 2 / 2 ^ 52"
    by (rule binary64_value [OF P(2)]) (simp_all add: round_half_even_def Let_def)
  then show "binary64 3 = 3" by simp
  have "binary64 10 = of_int (5 * 2 ^ 50) * 8 / 2 ^ 52"
    by (rule binary64_value [OF P(3)]) (simp_all add: round_half_even_def Let_def)
  then show "binary64 10 = 10" by simp
  have "binary64 (1 / 2) = of_int (2 ^ 52) * (1 / 2) / 2 ^ 52"
    by (rule binary64_value [OF P(4)]) (simp_all add: round_half_even_def Let_def)
  then show "binary64 (1 / 2) = 1 / 2" by simp
qed

lemma float_truediv_examples:
  "float_truediv 3 1 = 3"
  "float_truediv (1 / 2) 1 = 1 / 2"
  by (simp_all add: float_truediv_def binary64_small_int)

lemma float_truediv_three_tenths:
  "float_truediv (3 / 10) (1 / 10) = 6755399441055743 / 2251799813685248"
proof -
  have P: "(2 :: real) = 2 powr of_int 1"
    by simp
  have q: "binary64 (3 / 10) / binary64 (1 / 10) = 10808639105689190 / 3602879701896397"
    by (simp add: binary64_one_tenth binary64_three_tenths)
  have "binary64 (10808639105689190 / 3602879701896397) = of_int 6755399441055743 * 2 / 2 ^ 52"
    by (rule binary64_value [OF P]) (simp_all add: round_half_even_def Let_def)
  then show ?thesis
    unfolding float_truediv_def q by simp
qed

lemma float_truediv_one_tenth:
  "float_truediv 1 (1 / 10) = 10" "float_truediv 10 (1 / 10) = 100"
proof -
  have P: "(8 :: real) = 2 powr of_int 3" "(64 :: real) = 2 powr of_int 6"
    by simp_all
  have q: "binary64 1 / binary64 (1 / 10) = 36028797018963968 / 3602879701896397"
    "binary64 10 / binary64 (1 / 10) = 360287970189639680 / 3602879701896397"
    by (simp_all add: binary64_one_tenth binary64_small_int)
  have "binary64 (36028797018963968 / 3602879701896397) = of_int (5 * 2 ^ 50) * 8 / 2 ^ 52"
    by (rule binary64_value [OF P(1)]) (simp_all add: round_half_even_def Let_def)
  then show "float_truediv 1 (1 / 10) = 10"
    unfolding float_truediv_def q by simp
  have "binary64 (360287970189639680 / 3602879701896397) = of_int (25 * 2 ^ 48) * 64 / 2 ^ 52"
    by (rule binary64_value [OF P(2)]) (simp_all add: round_half_even_def Let_def)
  then show "float_truediv 10 (1 / 10) = 100"
    unfolding float_truediv_def q by simp
qed




text \<open>
  A double is its own rounding, so on two attributes that are doubles \<open>float_truediv\<close>
  is the rounding of their exact quotient.
\<close>

lemma binary64_double:
  fixes n e :: int
  assumes "2 ^ 52 \<le> n" "n < 2 ^ 53"
  shows "binary64 (of_int n * 2 powr of_int e) = of_int n * 2 powr of_int e"
proof -
  let ?P = "(2::real) powr of_int (e + 52)"
  let ?y = "real_of_int n * 2 powr of_int e"
  have P: "?P = 2 ^ 52 * 2 powr of_int e"
    by (simp add: powr_add)
  have e: "0 < (2::real) powr of_int e"
    by simp
  note b = int_bounds_real [OF assms]
  have y: "0 < ?y"
    using b(1) e by (intro mult_pos_pos) simp_all
  have l: "?P \<le> ?y"
    unfolding P using b(1) e by (intro mult_right_mono) simp_all
  have u: "?y < 2 * ?P"
    unfolding P using b(2) e by simp
  have "?y * 2 ^ 52 / ?P = of_int n"
    unfolding P by simp
  then have r: "round_half_even (?y * 2 ^ 52 / ?P) = n"
    by (simp only: round_half_even_of_int)
  have "binary64 ?y = of_int n * ?P / 2 ^ 52"
    by (rule binary64_value [OF refl y l u r])
  then show ?thesis
    unfolding P by simp
qed

lemma binary64_idem: "binary64 (binary64 x) = binary64 x"
proof -
  have pos: "binary64 (binary64 y) = binary64 y" if "0 < y" for y
  proof -
    from binary64_normal [OF that] obtain n e where
      b: "binary64 y = of_int n * 2 powr of_int e" and n: "2 ^ 52 \<le> n" "n < 2 ^ 53"
      by blast
    show ?thesis
      unfolding b by (rule binary64_double [OF n])
  qed
  consider "0 < x" | "x = 0" | "x < 0"
    by linarith
  then show ?thesis
  proof cases
    case 1
    then show ?thesis by (rule pos)
  next
    case 2
    then show ?thesis by simp
  next
    case 3
    then have "binary64 (binary64 (- x)) = binary64 (- x)"
      by (intro pos) simp
    then show ?thesis
      by (simp add: binary64_minus)
  qed
qed

lemma float_truediv_doubles:
  "binary64 a = a \<Longrightarrow> binary64 b = b \<Longrightarrow> float_truediv a b = binary64 (a / b)"
  by (simp add: float_truediv_def)

text \<open>
  The quotients of 1 and of 10 by the double that \<open>0.1\<close> denotes are just below 10 and
  100 in exact arithmetic, and 10 and 100 once rounded.
\<close>

lemma exact_quotient_one_tenth:
  "\<lfloor>binary64 1 / binary64 (1 / 10)\<rfloor> = 9"
  "\<lfloor>binary64 10 / binary64 (1 / 10)\<rfloor> = 99"
  by (simp_all add: binary64_small_int binary64_one_tenth)

section \<open>The number of rows and the allocation\<close>


lemma py_int_below_one: "v < 1 \<Longrightarrow> py_int v < 1"
  by (auto simp: py_int_def floor_less_iff ceiling_less_iff)

lemma py_int_nonneg_iff: "0 \<le> py_int v \<longleftrightarrow> - 1 < v"
  by (auto simp: py_int_def le_ceiling_iff)

lemma max_float_large: "2 ^ 63 \<le> max_float"
proof -
  have "(2::real) ^ 63 \<le> 1 * 2 ^ 971"
    by simp
  also have "\<dots> \<le> (2 ^ 53 - 1) * 2 ^ 971"
    by (rule mult_right_mono) simp_all
  finally show ?thesis
    by (simp add: max_float_def)
qed

text \<open>
  \<open>initialize_simulation\<close> in one formula: the errors in the order in which the code
  raises them, and otherwise three arrays of zeros of \<open>num_steps\<close> rows.
\<close>

lemma initialize_simulation_eq:
  "initialize_simulation env self =
     (if delta_t self = 0 then Inl ZeroDivisionError
      else if max_float < \<bar>float_truediv (T self) (delta_t self)\<bar> then Inl OverflowError
      else if num_steps self < 0 \<or> N self < 0
              \<or> 2 ^ 63 \<le> 8 * max 1 (num_steps self) * max 1 (N self) then Inl ValueError
      else if \<not> allocates env (nat (num_steps self * N self)) then Inl MemoryError
      else Inr (replicate (nat (num_steps self)) (replicate (nat (N self)) 0),
                replicate (nat (num_steps self)) (replicate (nat (N self)) 0),
                replicate (nat (num_steps self)) (replicate (nat (N self)) 0)))"
proof -
  have three: "ebind (if c then Inl e else if d then Inl e' else Inr z)
      (\<lambda>h. ebind (if c then Inl e else if d then Inl e' else Inr z)
      (\<lambda>r. ebind (if c then Inl e else if d then Inl e' else Inr z) (\<lambda>s. Inr (h, r, s))))
    = (if c then Inl e else if d then Inl e' else Inr (z, z, z))"
    for c d and e e' :: error and z :: "real list list"
    by simp
  have "initialize_simulation env self =
     (if delta_t self = 0 then Inl ZeroDivisionError
      else if max_float < \<bar>float_truediv (T self) (delta_t self)\<bar> then Inl OverflowError
      else ebind (np_zeros (allocates env) (num_steps self) (N self))
        (\<lambda>h. ebind (np_zeros (allocates env) (num_steps self) (N self))
        (\<lambda>r. ebind (np_zeros (allocates env) (num_steps self) (N self))
        (\<lambda>s. Inr (h, r, s)))))"
    by (simp add: initialize_simulation_def py_float_truediv_def py_int_of_float_def
        num_steps_def)
  then show ?thesis
    by (simp only: np_zeros_def three)
qed

lemma initialize_simulation_Inr:
  assumes "delta_t self \<noteq> 0" "\<bar>float_truediv (T self) (delta_t self)\<bar> \<le> max_float"
    and "0 \<le> num_steps self" "0 \<le> N self"
    and "8 * max 1 (num_steps self) * max 1 (N self) < 2 ^ 63"
    and "allocates env (nat (num_steps self * N self))"
  shows "initialize_simulation env self =
     Inr (replicate (nat (num_steps self)) (replicate (nat (N self)) 0),
          replicate (nat (num_steps self)) (replicate (nat (N self)) 0),
          replicate (nat (num_steps self)) (replicate (nat (N self)) 0))"
  using assms by (simp add: initialize_simulation_eq)

lemma shape_replicate: "shape k n (replicate k (replicate n 0))"
  by (simp add: shape_def list_all_iff)

lemma initialize_simulation_cases:
  assumes "initialize_simulation env self = Inr (h, r, s)"
  shows "delta_t self \<noteq> 0 \<and> 0 \<le> num_steps self \<and> 0 \<le> N self
    \<and> shape (nat (num_steps self)) (nat (N self)) h
    \<and> shape (nat (num_steps self)) (nat (N self)) r
    \<and> shape (nat (num_steps self)) (nat (N self)) s"
  using assms
  by (auto simp: initialize_simulation_eq shape_replicate split: if_splits)



lemma num_steps_below_one:
  assumes "0 < binary64 (delta_t self)" "binary64 (T self) < binary64 (delta_t self)"
  shows "num_steps self < 1"
  unfolding num_steps_def
  by (rule py_int_below_one) (rule float_truediv_below_one [OF assms(2) assms(1)])

lemma num_steps_negative_delta_t:
  assumes "delta_t self < 0" "0 \<le> T self"
  shows "num_steps self < 1"
proof -
  have "binary64 (T self) / binary64 (delta_t self) \<le> 0"
    using assms binary64_nonneg [of "T self"] binary64_neg_neg [of "delta_t self"]
    by (simp add: divide_nonneg_neg)
  then have "float_truediv (T self) (delta_t self) \<le> 0"
    unfolding float_truediv_def by (rule binary64_nonpos)
  then show ?thesis
    unfolding num_steps_def by (intro py_int_below_one) simp
qed


text \<open>
  The example configuration (\<open>T = 3\<close>, \<open>delta_t = 1\<close>) has three rows. With the step
  \<open>0.1\<close> the rows follow the doubles: \<open>T = 0.3\<close> gives two rows, where the exact quotient
  is 3, and \<open>T = 1.0\<close> and \<open>T = 10\<close> give 10 and 100 rows, where the quotient of the
  exact \<open>0.1\<close> of the machine would give 9 and 99.
\<close>

lemma example_num_steps: "T self = 3 \<Longrightarrow> delta_t self = 1 \<Longrightarrow> num_steps self = 3"
  by (simp add: num_steps_def float_truediv_examples py_int_def)

lemma num_steps_three_tenths:
  assumes "T self = 3 / 10" "delta_t self = 1 / 10"
  shows "num_steps self = 2"
  unfolding num_steps_def assms float_truediv_three_tenths
  by (simp add: py_int_def)

lemma num_steps_one_tenth:
  assumes "delta_t self = 1 / 10"
  shows "T self = 1 \<Longrightarrow> num_steps self = 10"
    and "T self = 10 \<Longrightarrow> num_steps self = 100"
  unfolding num_steps_def assms
  by (simp_all add: float_truediv_one_tenth py_int_def)

lemma example_allocation:
  assumes "T self = 3" "delta_t self = 1" "N self = 2"
  shows "initialize_simulation example_env self
     = Inr ([[0, 0], [0, 0], [0, 0]], [[0, 0], [0, 0], [0, 0]], [[0, 0], [0, 0], [0, 0]])"
proof -
  have "\<bar>float_truediv (T self) (delta_t self)\<bar> \<le> max_float"
    using max_float_large by (simp add: assms float_truediv_examples)
  then show ?thesis
    by (simp add: initialize_simulation_eq example_num_steps assms example_env_def
        numeral_2_eq_2 numeral_3_eq_3)
qed

section \<open>A run of the example configuration\<close>

lemma example_initialize_simulation:
  "initialize_simulation example_env example_sim
     = Inr ([[0, 0], [0, 0], [0, 0]], [[0, 0], [0, 0], [0, 0]], [[0, 0], [0, 0], [0, 0]])"
  by (rule example_allocation) (simp_all add: example_sim_def)

lemma example_initialize_positions: "initialize_positions example_sim = Inr [0, 2 * pi]"
  by (simp add: initialize_positions_def example_sim_def np_linspace_def numeral_2_eq_2)

lemma example_first_step_update:
  "first_step_update example_env example_sim (ZeroArg (uniform_voltage example_env example_sim)) gen
     = Inr (([1 / 4, 1 / 4], [1 / 2, 1 / 2], [1, 1]), gen + 4)"
  by (simp add: first_step_update_def uniform_voltage_def np_random_uniform_def
      np_random_binomial_def example_env_def example_sim_def numeral_2_eq_2)

lemma example_prepare:
  "prepare example_env example_sim (ZeroArg (uniform_voltage example_env example_sim)) 0
     = Inr (example_start, 8)"
  by (simp add: prepare_def example_initialize_simulation example_initialize_positions
      example_first_step_update set_row_def broadcast_to_def example_start_def)

lemma example_update_rows:
  "update_rows example_env example_sim 0 [2, 2] [[1 / 4, 1 / 4], [0, 0], [0, 0]]
      [[1 / 2, 1 / 2], [0, 0], [0, 0]] [[1, 1], [0, 0], [0, 0]] gen
     = Inr (([[1 / 4, 1 / 4], [9 / 8, 9 / 8], [0, 0]], [[1 / 2, 1 / 2], [1 / 2, 1 / 2], [0, 0]],
             [[1, 1], [1, 1], [0, 0]]), gen + 2)"
  by (simp add: update_rows_def py_truediv_def broadcast2_def set_row_def broadcast_to_def
      np_random_binomial_def example_env_def example_sim_def)

lemma example_update_rows_1:
  "update_rows example_env example_sim (Suc 0) [2, 2] [[1 / 4, 1 / 4], [9 / 8, 9 / 8], [0, 0]]
      [[1 / 2, 1 / 2], [1 / 2, 1 / 2], [0, 0]] [[1, 1], [1, 1], [0, 0]] gen
     = Inr (([[1 / 4, 1 / 4], [9 / 8, 9 / 8], [25 / 16, 25 / 16]],
             [[1 / 2, 1 / 2], [1 / 2, 1 / 2], [1 / 2, 1 / 2]],
             [[1, 1], [1, 1], [1, 1]]), gen + 2)"
  by (simp add: update_rows_def py_truediv_def broadcast2_def set_row_def broadcast_to_def
      np_random_binomial_def example_env_def example_sim_def)

lemma example_update:
  "update example_env example_sim 0 [2, 2] [2, 2] example_start 8 = Inr (example_middle, 12)"
  by (simp add: update_def example_start_def example_middle_def example_update_rows)

lemma example_update_1:
  "update example_env example_sim (Suc 0) [2, 2] [2, 2] example_middle 12 = Inr (example_final, 16)"
  by (simp add: update_def example_middle_def example_final_def example_update_rows_1)

lemma example_input_currents:
  "input_currents example_sim example_start 0 = Inr ([2, 2], [2, 2])"
  "input_currents example_sim example_middle (Suc 0) = Inr ([2, 2], [2, 2])"
  by (simp_all add: input_currents_def example_sim_def example_start_def example_middle_def
      two_population_recurrent_input_def broadcast2_def np_mean_def external_input_def)

lemma example_simulation_state:
  "simulation_state example_env example_sim (ZeroArg (uniform_voltage example_env example_sim)) 0
     = Inr (example_final, 16)"
proof -
  have l: "[0..<length (hR example_start) - Suc 0] = [0, 1]"
    by (simp add: example_start_def upt_rec)
  show ?thesis
    by (simp add: simulation_state_def example_prepare l loop_body_def example_input_currents
        example_update example_update_1)
qed

lemma example_well_shaped: "well_shaped 3 2 example_start"
  by (simp add: well_shaped_def shape_def example_start_def)

theorem update_applies_euler_rule_witness:
  "update example_env example_sim 0 [2, 2] [2, 2] example_start 8 = Inr (example_middle, 12)
   \<and> hL example_middle ! 1 ! 0 = 1 / 4 + 1 / 2 * (- (1 / 4) + 1 * 2)
   \<and> hL example_middle ! 0 = hL example_start ! 0"
proof -
  have l: "length [2, 2 :: real] = 2" "0 + 1 < (3 :: nat)"
    by simp_all
  note u = update_applies_euler_rule [OF example_well_shaped l(1) l(1) l(2) example_update]
  have "hL example_middle ! (0 + 1) ! 0
      = hL example_start ! 0 ! 0 + delta_t example_sim / tau example_sim
          * (- hL example_start ! 0 ! 0 + R example_sim * [2, 2] ! 0)"
    using u by simp
  moreover have "hL example_middle ! 0 = hL example_start ! 0"
    using u by simp
  ultimately show ?thesis
    using example_update by (simp add: example_start_def example_sim_def)
qed

section \<open>The default initializer\<close>

lemma initialize_positions_Inr:
  assumes "0 \<le> N self"
  shows "\<exists>xs. initialize_positions self = Inr xs \<and> length xs = nat (N self)"
  using assms by (simp add: initialize_positions_def np_linspace_def Let_def)

lemma prepare_needs_self:
  "\<exists>e. prepare env self (NeedsSelf f) gen = Inl e
     \<and> ((\<exists>a. initialize_simulation env self = Inr a) \<longrightarrow> e = TypeError)"
proof (cases "initialize_simulation env self")
  case (Inr a)
  obtain h r s where a: "a = (h, r, s)"
    by (cases a) auto
  from Inr have "0 \<le> N self"
    using initialize_simulation_cases [of env self h r s] by (simp add: a)
  then obtain xs where "initialize_positions self = Inr xs"
    using initialize_positions_Inr [of self] by blast
  then show ?thesis
    using Inr by (simp add: prepare_def first_step_update_def a)
next
  case (Inl e)
  then show ?thesis
    by (simp add: prepare_def)
qed

lemma simulation_prepare_Inl:
  "prepare env self iv gen = Inl e \<Longrightarrow> simulation env self iv gen = Inl e"
  by (simp add: simulation_def simulation_state_def)

text \<open>
  Claim C10. Called with the default initializer, the plain function \<open>uniform_voltage\<close>,
  \<open>simulation\<close> never returns a result: \<open>first_step_update\<close> calls the initializer with no
  argument, which raises TypeError. The TypeError is what the caller sees whenever the
  allocation before it succeeds: \<open>delta_t\<close> not zero, a finite quotient \<open>T / delta_t\<close>, no
  negative dimension, arrays that fit the address space and that the allocator grants. A
  run that returns a result was given a callable that accepts a call with no argument.
\<close>

theorem default_initializer_raises_type_error:
  "(\<exists>e. simulation env self (default_initial_voltage env) gen = Inl e)
   \<and> (delta_t self \<noteq> 0 \<and> \<bar>float_truediv (T self) (delta_t self)\<bar> \<le> max_float
        \<and> 0 \<le> num_steps self \<and> 0 \<le> N self
        \<and> 8 * max 1 (num_steps self) * max 1 (N self) < 2 ^ 63
        \<and> allocates env (nat (num_steps self * N self)) \<longrightarrow>
        simulation env self (default_initial_voltage env) gen = Inl TypeError)
   \<and> (\<forall>iv res. simulation env self iv gen = Inr res \<longrightarrow> (\<exists>f. iv = ZeroArg f))"
proof (intro conjI allI impI)
  from prepare_needs_self [of env self "uniform_voltage env" gen]
  show "\<exists>e. simulation env self (default_initial_voltage env) gen = Inl e"
    by (auto simp: default_initial_voltage_def dest: simulation_prepare_Inl)
next
  assume "delta_t self \<noteq> 0 \<and> \<bar>float_truediv (T self) (delta_t self)\<bar> \<le> max_float
        \<and> 0 \<le> num_steps self \<and> 0 \<le> N self
        \<and> 8 * max 1 (num_steps self) * max 1 (N self) < 2 ^ 63
        \<and> allocates env (nat (num_steps self * N self))"
  then have "\<exists>a. initialize_simulation env self = Inr a"
    using initialize_simulation_Inr [of self env] by blast
  with prepare_needs_self [of env self "uniform_voltage env" gen]
  show "simulation env self (default_initial_voltage env) gen = Inl TypeError"
    by (auto simp: default_initial_voltage_def dest: simulation_prepare_Inl)
next
  fix iv :: "'a callable" and res
  assume r: "simulation env self iv gen = Inr res"
  show "\<exists>f. iv = ZeroArg f"
  proof (cases iv)
    case (ZeroArg f)
    then show ?thesis by simp
  next
    case (NeedsSelf f)
    with prepare_needs_self [of env self f gen] r show ?thesis
      by (auto dest: simulation_prepare_Inl)
  qed
qed

lemma example_simulation:
  "simulation example_env example_sim (ZeroArg (uniform_voltage example_env example_sim)) 0
     = Inr (hL example_final, sL example_final, hR example_final, sR example_final)"
  by (simp add: simulation_def example_simulation_state)

theorem default_initializer_raises_type_error_witness:
  "simulation example_env example_sim (default_initial_voltage example_env) 0 = Inl TypeError
   \<and> simulation example_env example_sim (ZeroArg (uniform_voltage example_env example_sim)) 0
       = Inr (hL example_final, sL example_final, hR example_final, sR example_final)
   \<and> (\<exists>f. ZeroArg (uniform_voltage example_env example_sim) = (ZeroArg f :: nat callable))"
proof -
  have k: "num_steps example_sim = 3"
    by (rule example_num_steps) (simp_all add: example_sim_def)
  have q: "\<bar>float_truediv (T example_sim) (delta_t example_sim)\<bar> \<le> max_float"
    using max_float_large by (simp add: example_sim_def float_truediv_examples)
  have c: "delta_t example_sim \<noteq> 0
      \<and> \<bar>float_truediv (T example_sim) (delta_t example_sim)\<bar> \<le> max_float
      \<and> 0 \<le> num_steps example_sim \<and> 0 \<le> N example_sim
      \<and> 8 * max 1 (num_steps example_sim) * max 1 (N example_sim) < 2 ^ 63
      \<and> allocates example_env (nat (num_steps example_sim * N example_sim))"
    using q by (simp add: k) (simp add: example_sim_def example_env_def)
  note d = default_initializer_raises_type_error [of example_env example_sim 0]
  have "simulation example_env example_sim (default_initial_voltage example_env) 0 = Inl TypeError"
    by (rule d [THEN conjunct2, THEN conjunct1, THEN mp, OF c])
  moreover have "\<exists>f. ZeroArg (uniform_voltage example_env example_sim) = (ZeroArg f :: nat callable)"
    by (rule d [THEN conjunct2, THEN conjunct2, THEN spec, THEN spec, THEN mp,
          OF example_simulation])
  ultimately show ?thesis
    using example_simulation by simp
qed

section \<open>The preparation before the loop\<close>

lemma initialize_positions_length:
  assumes "initialize_positions self = Inr xs"
  shows "length xs = nat (N self)"
  using assms
  by (auto simp: initialize_positions_def np_linspace_def Let_def split: if_splits)

lemma set_row_exists: "set_row a i v = Inr a1 \<Longrightarrow> i < length a"
  by (auto simp: set_row_def split: if_splits)

lemma prepare_Inr:
  assumes "prepare env self iv gen = Inr (st, gen1)"
  shows "delta_t self \<noteq> 0 \<and> 0 \<le> N self \<and> 1 \<le> num_steps self
    \<and> well_shaped (nat (num_steps self)) (nat (N self)) st"
proof -
  let ?k = "nat (num_steps self)"
  let ?n = "nat (N self)"
  from assms obtain hl rl sl hr rr sr xl xr h0 r0 s0 g1 hl1 rl1 sl1 h0' r0' s0' g2 hr1 rr1 sr1
    where i1: "initialize_simulation env self = Inr (hl, rl, sl)"
      and i2: "initialize_simulation env self = Inr (hr, rr, sr)"
      and p1: "initialize_positions self = Inr xl"
      and p2: "initialize_positions self = Inr xr"
      and w: "set_row hl 0 h0 = Inr hl1" "set_row rl 0 r0 = Inr rl1" "set_row sl 0 s0 = Inr sl1"
        "set_row hr 0 h0' = Inr hr1" "set_row rr 0 r0' = Inr rr1" "set_row sr 0 s0' = Inr sr1"
      and st: "st = \<lparr>hL = hl1, rL = rl1, sL = sl1, hR = hr1, rR = rr1, sR = sr1,
             xL = xl, xR = xr\<rparr>"
    by (auto simp: prepare_def ebind_eq_Inr split: prod.splits)
  note a = initialize_simulation_cases [OF i1]
  note b = initialize_simulation_cases [OF i2]
  have sh: "shape ?k ?n hl1" "shape ?k ?n rl1" "shape ?k ?n sl1"
    "shape ?k ?n hr1" "shape ?k ?n rr1" "shape ?k ?n sr1"
    using a b w by (auto intro: set_row_shape)
  have "0 < length hl"
    using w(1) by (rule set_row_exists)
  moreover have "length hl = ?k"
    using a by (auto simp: shape_def)
  ultimately have k: "1 \<le> num_steps self"
    by linarith
  show ?thesis
    using a k sh initialize_positions_length [OF p1] initialize_positions_length [OF p2]
    by (simp add: st well_shaped_def)
qed

lemma prepare_initialize_simulation:
  assumes "initialize_simulation env self = Inl e"
  shows "prepare env self iv gen = Inl e"
  using assms by (simp add: prepare_def)

lemma prepare_rejects:
  assumes "N self < 0 \<or> delta_t self = 0 \<or> num_steps self < 1"
  shows "\<exists>e. prepare env self iv gen = Inl e"
proof (cases "prepare env self iv gen")
  case (Inl e)
  then show ?thesis by blast
next
  case (Inr v)
  then show ?thesis
    using prepare_Inr [of env self iv gen "fst v" "snd v"] assms by auto
qed

section \<open>One step of the loop\<close>

lemma recurrent_well_shaped:
  assumes "well_shaped k n st" "t < k"
  shows "\<exists>IL0 IR0. two_population_recurrent_input (xL st) (xR st)
           (map (\<lambda>v. v / delta_t self) (sL st ! t))
           (map (\<lambda>v. v / delta_t self) (sR st ! t)) (J self) (theta self) = Inr (IL0, IR0)
      \<and> length IL0 = n \<and> length IR0 = n
      \<and> (J self = 0 \<longrightarrow> IL0 = replicate n 0 \<and> IR0 = replicate n 0)"
proof -
  have l: "length (map (\<lambda>v. v / delta_t self) (sL st ! t)) = length (xL st)"
    "length (map (\<lambda>v. v / delta_t self) (sR st ! t)) = length (xR st)"
    using well_shaped_row [OF assms] well_shaped_shape [OF assms(1)] by simp_all
  show ?thesis
    unfolding recurrent_eq [OF l]
    using well_shaped_shape [OF assms(1)] by (simp add: map_replicate_const)
qed


lemma input_currents_head_too_short:
  assumes "well_shaped k n st" "t < k" "w_head self = Some w" "length (I_head self) \<le> t"
  shows "input_currents self st t = Inl IndexError"
proof -
  from recurrent_well_shaped [OF assms(1,2), of self] obtain IL0 IR0 where
    r: "two_population_recurrent_input (xL st) (xR st)
           (map (\<lambda>v. v / delta_t self) (sL st ! t))
           (map (\<lambda>v. v / delta_t self) (sR st ! t)) (J self) (theta self) = Inr (IL0, IR0)"
    by blast
  have t: "t < length (sL st)" "t < length (sR st)"
    using assms(2) by (simp_all add: well_shaped_length [OF assms(1)])
  show ?thesis
    unfolding input_currents_eq [OF t r] using assms(3,4) by simp
qed

lemma input_currents_uncoupled:
  assumes "well_shaped k n st" "t < k" "J self = 0" "\<not> I_ext self" "w_head self = None"
  shows "input_currents self st t = Inr (replicate n 0, replicate n 0)"
proof -
  from recurrent_well_shaped [OF assms(1,2), of self] assms(3) have
    r: "two_population_recurrent_input (xL st) (xR st)
           (map (\<lambda>v. v / delta_t self) (sL st ! t))
           (map (\<lambda>v. v / delta_t self) (sR st ! t)) (J self) (theta self)
          = Inr (replicate n 0, replicate n 0)"
    by auto
  have t: "t < length (sL st)" "t < length (sR st)"
    using assms(2) by (simp_all add: well_shaped_length [OF assms(1)])
  show ?thesis
    unfolding input_currents_eq [OF t r] using assms(4,5) by simp
qed

lemma loop_body_Inr:
  assumes "well_shaped k n st" "t + 1 < k" "loop_body env self t st gen = Inr (st1, gen1)"
  shows "\<exists>IL IR. input_currents self st t = Inr (IL, IR) \<and> length IL = n \<and> length IR = n
      \<and> update env self t IL IR st gen = Inr (st1, gen1) \<and> well_shaped k n st1"
proof -
  from assms(3) obtain IL IR where
    i: "input_currents self st t = Inr (IL, IR)" and
    u: "update env self t IL IR st gen = Inr (st1, gen1)"
    by (auto simp: loop_body_def ebind_eq_Inr)
  have l: "length IL = n" "length IR = n"
    using input_currents_lengths [OF i] well_shaped_shape [OF assms(1)] by simp_all
  show ?thesis
    using i u l update_well_shaped [OF assms(1) l assms(2) u] by blast
qed



section \<open>The loop\<close>

lemma run_loop_invariant:
  assumes "run_loop env self [a..<b] st gen = Inr (st', gen')" "P a st" "a \<le> b"
    and "\<And>t s gn s' gn'. a \<le> t \<Longrightarrow> t < b \<Longrightarrow> P t s \<Longrightarrow>
           loop_body env self t s gn = Inr (s', gn') \<Longrightarrow> P (Suc t) s'"
  shows "P b st'"
  using assms
proof (induction "b - a" arbitrary: a st gen)
  case 0
  then show ?case by simp
next
  case (Suc d)
  then have ab: "a < b" by simp
  then have u: "[a..<b] = a # [Suc a..<b]"
    by (simp add: upt_rec)
  from Suc.prems(1) obtain s1 g1 where
    b: "loop_body env self a st gen = Inr (s1, g1)" and
    r: "run_loop env self [Suc a..<b] s1 g1 = Inr (st', gen')"
    unfolding u by (auto simp: ebind_eq_Inr)
  have p: "P (Suc a) s1"
    using Suc.prems(4) [OF _ ab Suc.prems(2) b] by simp
  have d: "d = b - Suc a"
    using Suc.hyps(2) by simp
  show ?case
  proof (rule Suc.hyps(1) [OF d r p])
    show "Suc a \<le> b" using ab by simp
  next
    fix t s gn s' gn'
    assume "Suc a \<le> t" "t < b" "P t s" "loop_body env self t s gn = Inr (s', gn')"
    then show "P (Suc t) s'"
      using Suc.prems(4) [of t s gn s' gn'] by simp
  qed
qed


lemma run_loop_fails:
  assumes "P st" "a \<le> c" "c < b"
    and "\<And>t s gn s' gn'. t < b \<Longrightarrow> P s \<Longrightarrow> loop_body env self t s gn = Inr (s', gn') \<Longrightarrow> P s'"
    and "\<And>s gn. P s \<Longrightarrow> \<exists>e. loop_body env self c s gn = Inl e"
  shows "\<exists>e. run_loop env self [a..<b] st gen = Inl e"
proof (cases "run_loop env self [a..<b] st gen")
  case (Inl e)
  then show ?thesis by blast
next
  case (Inr v)
  have "[a..<b] = [a..<c] @ [c..<b]"
    using assms(2,3) upt_add_eq_append [of a c "b - c"] by simp
  moreover have "[c..<b] = c # [Suc c..<b]"
    using assms(3) by (simp add: upt_rec)
  ultimately have ac: "[a..<b] = [a..<c] @ c # [Suc c..<b]"
    by simp
  have app: "run_loop env self (xs @ ys) s gn
      = ebind (run_loop env self xs s gn) (\<lambda>(s1, g1). run_loop env self ys s1 g1)"
    for xs ys s gn
    by (induction xs arbitrary: s gn) (auto simp: ebind_def split: sum.splits)
  from Inr obtain s1 g1 where
    r1: "run_loop env self [a..<c] st gen = Inr (s1, g1)" and
    r2: "run_loop env self (c # [Suc c..<b]) s1 g1 = Inr v"
    unfolding ac app by (auto simp: ebind_eq_Inr)
  have "P s1"
  proof (rule run_loop_invariant [OF r1, of "\<lambda>t. P"])
    show "P st" by (rule assms(1))
    show "a \<le> c" by (rule assms(2))
  next
    fix t s gn s' gn'
    assume "t < c" "P s" "loop_body env self t s gn = Inr (s', gn')"
    then show "P s'"
      using assms(4) [of t s gn s' gn'] assms(3) by simp
  qed
  with assms(5) [of s1 g1] r2 show ?thesis
    by (auto simp: ebind_eq_Inr)
qed

section \<open>A valid configuration runs to the end\<close>







section \<open>The uncoupled populations\<close>

lemma euler_row_zero:
  assumes "length row = n"
  shows "euler_row self row (replicate n 0) = map (\<lambda>h. h * (1 - delta_t self / tau self)) row"
  using assms by (intro nth_equalityI) (simp_all add: euler_row_def algebra_simps)

lemma example_uncoupled_simulation:
  "simulation example_env example_uncoupled
      (ZeroArg (uniform_voltage example_env example_uncoupled)) 0
     = Inr (example_decay, [[1, 1], [1, 1], [1, 1]], example_decay, [[1, 1], [1, 1], [1, 1]])"
proof -
  have l: "[0..<Suc (Suc 0)] = [0, Suc 0]"
    by (simp add: upt_rec)
  have i: "initialize_simulation example_env example_uncoupled
     = Inr ([[0, 0], [0, 0], [0, 0]], [[0, 0], [0, 0], [0, 0]], [[0, 0], [0, 0], [0, 0]])"
    by (rule example_allocation) (simp_all add: example_uncoupled_def example_sim_def)
  show ?thesis
    unfolding simulation_def simulation_state_def prepare_def i
    by (simp add: py_truediv_def initialize_positions_def np_linspace_def
      first_step_update_def uniform_voltage_def np_random_uniform_def np_random_binomial_def
      set_row_def broadcast_to_def loop_body_def input_currents_def
      two_population_recurrent_input_def broadcast2_def np_mean_def update_def update_rows_def
      example_env_def example_sim_def example_uncoupled_def example_decay_def
      numeral_2_eq_2 numeral_3_eq_3 l)
qed

lemma loop_body_uncoupled:
  assumes "well_shaped k n s" "t + 1 < k" "J self = 0" "\<not> I_ext self" "w_head self = None"
    and "loop_body env self t s gn = Inr (s', gn')"
  shows "well_shaped k n s'
    \<and> hL s' = (hL s)[t + 1 := map (\<lambda>h. h * (1 - delta_t self / tau self)) (hL s ! t)]
    \<and> hR s' = (hR s)[t + 1 := map (\<lambda>h. h * (1 - delta_t self / tau self)) (hR s ! t)]"
proof -
  have t: "t < k" using assms(2) by simp
  from loop_body_Inr [OF assms(1,2,6)] obtain IL IR where
    i: "input_currents self s t = Inr (IL, IR)" and
    u: "update env self t IL IR s gn = Inr (s', gn')" and w: "well_shaped k n s'"
    by blast
  have z: "IL = replicate n 0" "IR = replicate n 0"
    using i input_currents_uncoupled [OF assms(1) t assms(3-5)] by auto
  have l: "length (replicate n (0::real)) = n"
    by simp
  note r = well_shaped_row [OF assms(1) t]
  from update_Inr [OF assms(1) l l assms(2) u [unfolded z]] show ?thesis
    using w by (auto simp: euler_row_zero [OF r(1)] euler_row_zero [OF r(4)])
qed

text \<open>
  Claim C5. With \<open>J = 0\<close>, the pulse disabled and no head link, the potentials a run
  returns obey, for both populations and every step \<open>t\<close> with a next row,
  \<open>h[t+1] = h[t] * (1 - delta_t / tau)\<close>, neuron by neuron: whatever the spikes drawn.
\<close>

theorem uncoupled_leaky_integrator:
  assumes "J self = 0" "\<not> I_ext self" "w_head self = None"
    and "simulation env self iv gen = Inr (hl, sl, hr, sr)"
  shows "\<forall>t. t + 1 < length hl \<longrightarrow>
           hl ! (t + 1) = map (\<lambda>h. h * (1 - delta_t self / tau self)) (hl ! t)
         \<and> hr ! (t + 1) = map (\<lambda>h. h * (1 - delta_t self / tau self)) (hr ! t)"
proof -
  let ?k = "nat (num_steps self)"
  let ?n = "nat (N self)"
  let ?F = "map (\<lambda>h. h * (1 - delta_t self / tau self))"
  let ?P = "\<lambda>t s. well_shaped ?k ?n s
     \<and> (\<forall>u < t. hL s ! (u + 1) = ?F (hL s ! u) \<and> hR s ! (u + 1) = ?F (hR s ! u))"
  from assms(4) obtain st0 g0 st g1 where
    p: "prepare env self iv gen = Inr (st0, g0)" and
    r: "run_loop env self [0..<length (hR st0) - 1] st0 g0 = Inr (st, g1)" and
    e: "hl = hL st" "hr = hR st"
    by (auto simp: simulation_def simulation_state_def ebind_eq_Inr)
  have w0: "well_shaped ?k ?n st0"
    using prepare_Inr [OF p] by simp
  have lk: "length (hR st0) = ?k"
    by (rule well_shaped_length(4) [OF w0])
  have "?P (?k - 1) st"
  proof (rule run_loop_invariant [where P = ?P, OF r [unfolded lk]])
    show "?P 0 st0" using w0 by simp
    show "0 \<le> ?k - 1" by simp
  next
    fix t s gn s' gn'
    assume t: "t < ?k - 1" and P: "?P t s" and b: "loop_body env self t s gn = Inr (s', gn')"
    have t1: "t + 1 < ?k" using t by simp
    from P have w: "well_shaped ?k ?n s" by simp
    note n = loop_body_uncoupled [OF w t1 assms(1-3) b]
    have k: "t + 1 < length (hL s)" "t + 1 < length (hR s)"
      using t1 by (simp_all add: well_shaped_length [OF w])
    have "hL s' ! (u + 1) = ?F (hL s' ! u) \<and> hR s' ! (u + 1) = ?F (hR s' ! u)" if "u < Suc t" for u
    proof (cases "u = t")
      case True
      then show ?thesis using n k by simp
    next
      case False
      then have "u < t" using that by simp
      then show ?thesis using P n k by simp
    qed
    then show "?P (Suc t) s'" using n by simp
  qed
  then have f: "\<forall>u < ?k - 1. hL st ! (u + 1) = ?F (hL st ! u) \<and> hR st ! (u + 1) = ?F (hR st ! u)"
    and w: "well_shaped ?k ?n st"
    by simp_all
  have "length hl = ?k"
    using well_shaped_length(1) [OF w] e by simp
  then show ?thesis
    using f e by auto
qed

theorem uncoupled_leaky_integrator_witness:
  "simulation example_env example_uncoupled
      (ZeroArg (uniform_voltage example_env example_uncoupled)) 0
     = Inr (example_decay, [[1, 1], [1, 1], [1, 1]], example_decay, [[1, 1], [1, 1], [1, 1]])
   \<and> example_decay ! 1 = map (\<lambda>h. h * (1 - 1 / 2)) (example_decay ! 0)
   \<and> example_decay ! 2 = map (\<lambda>h. h * (1 - 1 / 2)) (example_decay ! 1)"
proof -
  have c: "J example_uncoupled = 0" "\<not> I_ext example_uncoupled" "w_head example_uncoupled = None"
    "delta_t example_uncoupled = 1" "tau example_uncoupled = 2"
    by (simp_all add: example_uncoupled_def example_sim_def)
  note u = uncoupled_leaky_integrator [OF c(1-3) example_uncoupled_simulation, unfolded c(4,5)]
  have l: "0 + 1 < length example_decay" "1 + 1 < length example_decay"
    by (simp_all add: example_decay_def)
  have a: "example_decay ! 1 = map (\<lambda>h. h * (1 - 1 / 2)) (example_decay ! 0)"
    using u [THEN spec, THEN mp, OF l(1)] by simp
  have "example_decay ! (1 + 1) = map (\<lambda>h. h * (1 - 1 / 2)) (example_decay ! 1)"
    using u [THEN spec, THEN mp, OF l(2)] by blast
  moreover have "(1::nat) + 1 = 2"
    by simp
  ultimately have b: "example_decay ! 2 = map (\<lambda>h. h * (1 - 1 / 2)) (example_decay ! 1)"
    by (simp only:)
  show ?thesis
    using example_uncoupled_simulation a b by blast
qed

section \<open>A head drive that is too short\<close>

lemma loop_body_head_too_short:
  assumes "w_head self = Some w" "well_shaped k n st" "t < k" "length (I_head self) \<le> t"
  shows "loop_body env self t st gn = Inl IndexError"
  using input_currents_head_too_short [OF assms(2,3,1,4)] by (simp add: loop_body_def)

lemma simulation_head_too_short:
  assumes "w_head self = Some w" "length (I_head self) + 1 < nat (num_steps self)"
  shows "\<exists>e. simulation env self iv gen = Inl e"
proof (cases "prepare env self iv gen")
  case (Inl e)
  from simulation_prepare_Inl [OF Inl] show ?thesis
    by (rule exI)
next
  let ?k = "nat (num_steps self)"
  let ?n = "nat (N self)"
  let ?c = "length (I_head self)"
  note c = assms(2)
  case (Inr v)
  obtain st0 g0 where v: "v = (st0, g0)" by (cases v)
  have w0: "well_shaped ?k ?n st0"
    using prepare_Inr [OF Inr [unfolded v]] by simp
  have lk: "length (hR st0) = ?k"
    by (rule well_shaped_length(4) [OF w0])
  have "\<exists>e. run_loop env self [0..<?k - 1] st0 g0 = Inl e"
  proof (rule run_loop_fails [where P = "well_shaped ?k ?n" and c = ?c])
    show "well_shaped ?k ?n st0" by (rule w0)
    show "0 \<le> ?c" by simp
    show "?c < ?k - 1" using c by simp
  next
    fix t s gn s' gn'
    assume t: "t < ?k - 1" and w: "well_shaped ?k ?n s"
      and b: "loop_body env self t s gn = Inr (s', gn')"
    have t1: "t + 1 < ?k" using t by simp
    from loop_body_Inr [OF w t1 b] show "well_shaped ?k ?n s'"
      by blast
  next
    fix s gn
    assume w: "well_shaped ?k ?n s"
    have ck: "?c < ?k" using c by simp
    have "loop_body env self ?c s gn = Inl IndexError"
      by (rule loop_body_head_too_short [OF assms(1) w ck order_refl])
    then show "\<exists>e. loop_body env self ?c s gn = Inl e"
      by blast
  qed
  then obtain e where "run_loop env self [0..<?k - 1] st0 g0 = Inl e"
    by blast
  then have "simulation env self iv gen = Inl e"
    using Inr unfolding v simulation_def simulation_state_def by (simp add: lk)
  then show ?thesis
    by blast
qed

text \<open>
  Claim C9, as amended. With a head population linked, a step \<open>t\<close> of the loop that is
  not an index of the drive raises IndexError when it reads \<open>I_head[t]\<close>. So a run whose
  drive has fewer entries than the loop has steps, one less than the rows that were
  allocated, returns no result: unless an error ends it earlier, it raises IndexError
  inside the loop, at step \<open>t = len(I_head)\<close>. The rows allocated are the \<open>num_steps\<close> of
  the code, the truncated quotient of the two floats.
\<close>

theorem head_drive_too_short_index_error:
  assumes "w_head self = Some w"
  shows "(\<forall>k n st t gn. well_shaped k n st \<and> t < k \<and> length (I_head self) \<le> t \<longrightarrow>
            loop_body env self t st gn = Inl IndexError)
       \<and> (\<forall>st0 g0. prepare env self iv gen = Inr (st0, g0)
              \<and> length (I_head self) + 1 < length (hR st0) \<longrightarrow>
            (\<exists>e. simulation env self iv gen = Inl e))
       \<and> (length (I_head self) + 1 < nat (num_steps self) \<longrightarrow>
            (\<exists>e. simulation env self iv gen = Inl e))"
proof (intro conjI allI impI)
  fix k n st t gn
  assume a: "well_shaped k n st \<and> t < k \<and> length (I_head self) \<le> t"
  show "loop_body env self t st gn = Inl IndexError"
    by (rule loop_body_head_too_short [OF assms a [THEN conjunct1]
          a [THEN conjunct2, THEN conjunct1] a [THEN conjunct2, THEN conjunct2]])
next
  fix st0 g0
  assume a: "prepare env self iv gen = Inr (st0, g0)
      \<and> length (I_head self) + 1 < length (hR st0)"
  have "well_shaped (nat (num_steps self)) (nat (N self)) st0"
    using prepare_Inr [OF a [THEN conjunct1]] by simp
  then have "length (hR st0) = nat (num_steps self)"
    by (rule well_shaped_length(4))
  then have "length (I_head self) + 1 < nat (num_steps self)"
    using a by simp
  then show "\<exists>e. simulation env self iv gen = Inl e"
    by (rule simulation_head_too_short [OF assms])
next
  assume "length (I_head self) + 1 < nat (num_steps self)"
  then show "\<exists>e. simulation env self iv gen = Inl e"
    by (rule simulation_head_too_short [OF assms])
qed

lemma example_short_head_prepare:
  "prepare example_env example_short_head
      (ZeroArg (uniform_voltage example_env example_short_head)) 0 = Inr (example_start, 8)"
proof -
  have i: "initialize_simulation example_env example_short_head
     = Inr ([[0, 0], [0, 0], [0, 0]], [[0, 0], [0, 0], [0, 0]], [[0, 0], [0, 0], [0, 0]])"
    by (rule example_allocation) (simp_all add: example_short_head_def example_sim_def)
  show ?thesis
    unfolding prepare_def i
    by (simp add: initialize_positions_def np_linspace_def
      first_step_update_def uniform_voltage_def np_random_uniform_def np_random_binomial_def
      set_row_def broadcast_to_def
      example_env_def example_sim_def example_short_head_def example_start_def
      numeral_2_eq_2 numeral_3_eq_3)
qed

lemma example_short_head_step_0:
  "loop_body example_env example_short_head 0 example_start 8
     = Inr (example_short_head_step, 12)"
  by (simp add: loop_body_def input_currents_def
      two_population_recurrent_input_def broadcast2_def np_mean_def update_def update_rows_def
      py_truediv_def np_random_binomial_def set_row_def broadcast_to_def
      example_env_def example_sim_def example_short_head_def example_start_def
      example_short_head_step_def)

lemma example_short_head_step_1:
  "loop_body example_env example_short_head 1 example_short_head_step 12 = Inl IndexError"
  by (simp add: loop_body_def input_currents_def
      two_population_recurrent_input_def broadcast2_def np_mean_def
      example_sim_def example_short_head_def example_short_head_step_def)

lemma example_short_head_num_steps: "num_steps example_short_head = 3"
  by (rule example_num_steps) (simp_all add: example_short_head_def example_sim_def)

theorem head_drive_too_short_index_error_witness:
  "loop_body example_env example_short_head 1 example_short_head_step 12 = Inl IndexError
   \<and> prepare example_env example_short_head
        (ZeroArg (uniform_voltage example_env example_short_head)) 0 = Inr (example_start, 8)
   \<and> length (I_head example_short_head) + 1 < length (hR example_start)
   \<and> length (I_head example_short_head) + 1 < nat (num_steps example_short_head)
   \<and> (\<exists>e. simulation example_env example_short_head
             (ZeroArg (uniform_voltage example_env example_short_head)) 0 = Inl e)"
proof -
  have h: "w_head example_short_head = Some [1, - 1]"
    by (simp add: example_short_head_def)
  note t = head_drive_too_short_index_error [OF h, of example_env
      "ZeroArg (uniform_voltage example_env example_short_head)" 0]
  have w: "well_shaped 3 2 example_short_head_step \<and> (1::nat) < 3
      \<and> length (I_head example_short_head) \<le> 1"
    by (simp add: well_shaped_def shape_def example_short_head_step_def example_short_head_def)
  have r: "length (I_head example_short_head) + 1 < length (hR example_start)"
    by (simp add: example_short_head_def example_start_def)
  have c: "length (I_head example_short_head) + 1 < nat (num_steps example_short_head)"
    by (simp add: example_short_head_num_steps) (simp add: example_short_head_def)
  have "loop_body example_env example_short_head 1 example_short_head_step 12 = Inl IndexError"
    by (rule t [THEN conjunct1, THEN spec, THEN spec, THEN spec, THEN spec, THEN spec,
          THEN mp, OF w])
  moreover have "\<exists>e. simulation example_env example_short_head
             (ZeroArg (uniform_voltage example_env example_short_head)) 0 = Inl e"
    by (rule t [THEN conjunct2, THEN conjunct1, THEN spec, THEN spec, THEN mp,
          OF conjI [OF example_short_head_prepare r]])
  moreover have "\<exists>e. simulation example_env example_short_head
             (ZeroArg (uniform_voltage example_env example_short_head)) 0 = Inl e"
    by (rule t [THEN conjunct2, THEN conjunct2, THEN mp, OF c])
  ultimately show ?thesis
    using example_short_head_prepare r c by blast
qed

text \<open>
  The claim as stated fails: the constructor accepts a head population with a single
  step for a run of three rows, the preparation allocates the three rows and step 0 of
  the loop completes, and the IndexError is raised inside the loop, at step 1.
\<close>

theorem head_drive_mid_loop_counterexample:
  "init 2 1 2 3 1 1 1 0 1 0 5 False 1 (Some \<lparr>head_x = [0, pi], head_s = [[1, 0]]\<rparr>) True
     = Inr example_short_head
   \<and> num_steps example_short_head = 3 \<and> length (hR example_start) = 3
   \<and> length (I_head example_short_head) = 1
   \<and> prepare example_env example_short_head
        (ZeroArg (uniform_voltage example_env example_short_head)) 0 = Inr (example_start, 8)
   \<and> loop_body example_env example_short_head 0 example_start 8
        = Inr (example_short_head_step, 12)
   \<and> loop_body example_env example_short_head 1 example_short_head_step 12 = Inl IndexError
   \<and> simulation example_env example_short_head
        (ZeroArg (uniform_voltage example_env example_short_head)) 0 = Inl IndexError"
proof -
  have i: "init 2 1 2 3 1 1 1 0 1 0 5 False 1 (Some \<lparr>head_x = [0, pi], head_s = [[1, 0]]\<rparr>) True
     = Inr example_short_head"
    by (simp add: init_def head_drive_def broadcast2_def np_mean_def
        example_short_head_def example_sim_def)
  have n: "length (hR example_start) = 3" "length (I_head example_short_head) = 1"
    by (simp_all add: example_short_head_def example_start_def)
  have l: "[0..<length (hR example_start) - Suc 0] = [0, 1]"
    by (simp add: example_start_def upt_rec)
  have s: "simulation example_env example_short_head
        (ZeroArg (uniform_voltage example_env example_short_head)) 0 = Inl IndexError"
    using example_short_head_step_1
    by (simp add: simulation_def simulation_state_def example_short_head_prepare l
        example_short_head_step_0)
  show ?thesis
    using i n example_short_head_num_steps example_short_head_prepare
      example_short_head_step_0 example_short_head_step_1 s
    by blast
qed

section \<open>Configurations that are not valid\<close>

lemma prepare_zero_delta_t:
  "delta_t self = 0 \<Longrightarrow> prepare env self iv gen = Inl ZeroDivisionError"
  by (rule prepare_initialize_simulation) (simp add: initialize_simulation_eq)

lemma prepare_overflow:
  "delta_t self \<noteq> 0 \<Longrightarrow> max_float < \<bar>float_truediv (T self) (delta_t self)\<bar> \<Longrightarrow>
     prepare env self iv gen = Inl OverflowError"
  by (rule prepare_initialize_simulation) (simp add: initialize_simulation_eq)

lemma prepare_negative_dimension:
  assumes "delta_t self \<noteq> 0" "\<bar>float_truediv (T self) (delta_t self)\<bar> \<le> max_float"
    and "N self < 0 \<or> num_steps self < 0
      \<or> 2 ^ 63 \<le> 8 * max 1 (num_steps self) * max 1 (N self)"
  shows "prepare env self iv gen = Inl ValueError"
proof (rule prepare_initialize_simulation)
  have "\<not> max_float < \<bar>float_truediv (T self) (delta_t self)\<bar>"
    using assms(2) by simp
  then show "initialize_simulation env self = Inl ValueError"
    using assms(1,3) by (simp only: initialize_simulation_eq if_False if_True) auto
qed

lemma binary64_power_of_two: "binary64 (2 powr of_int e) = 2 powr of_int e"
proof -
  have "binary64 (2 powr of_int e) = of_int (2 ^ 52) * 2 powr of_int e / 2 ^ 52"
  proof (rule binary64_value [OF refl])
    show "round_half_even (2 powr of_int e * 2 ^ 52 / 2 powr of_int e) = 2 ^ 52"
      using round_half_even_of_int [of "2 ^ 52"] by simp
  qed simp_all
  then show ?thesis
    by simp
qed

lemma example_overflow:
  assumes "T self = 2 ^ 600" "delta_t self = 1 / 2 ^ 600"
  shows "max_float < \<bar>float_truediv (T self) (delta_t self)\<bar>"
proof -
  have p: "(2::real) ^ 600 = 2 powr of_int 600" "1 / (2::real) ^ 600 = 2 powr of_int (- 600)"
    "(2::real) ^ 1200 = 2 powr of_int 1200"
    by (simp_all add: powr_minus_divide)
  have t: "T self = 2 powr of_int 600" "delta_t self = 2 powr of_int (- 600)"
    using assms p(1,2) by (simp_all only:)
  have q: "(2::real) powr of_int 600 / 2 powr of_int (- 600) = 2 powr of_int 1200"
    using powr_diff [of "2::real" "of_int 600" "of_int (- 600)"] by simp
  have "float_truediv (T self) (delta_t self) = 2 powr of_int 1200"
    by (simp only: float_truediv_def t binary64_power_of_two q)
  then have "float_truediv (T self) (delta_t self) = 2 ^ 1200"
    by (simp only: p(3))
  moreover have "max_float < 2 ^ 1200"
    by (simp add: max_float_def)
  ultimately show ?thesis
    by simp
qed

text \<open>
  Claim C8, as amended. The constructor checks nothing: without a head population it
  returns the object for every value of the parameters. A run of \<open>simulation\<close> ends with
  an error before the loop, in the preparation, when \<open>N\<close> is negative, when \<open>delta_t\<close> is
  zero, or when \<open>num_steps\<close>, the truncation of the quotient \<open>T / delta_t\<close> of the two
  floats, is less than 1 (as it is for \<open>T < delta_t\<close> with \<open>delta_t\<close> positive, the two
  compared as doubles, and for \<open>T \<ge> 0\<close> with \<open>delta_t\<close> negative). The error is
  ZeroDivisionError for \<open>delta_t = 0\<close>, OverflowError for a quotient that is not finite,
  and otherwise ValueError for a negative dimension and for arrays that exceed the
  address space.
\<close>

theorem invalid_configuration_rejected_before_loop:
  "init n dt ta tt rr r0 al be jj th i0 iext jh None xflag
     = Inr \<lparr>N = n, delta_t = dt, tau = ta, T = tt, R = rr, r_0 = r0, alpha = al,
            beta = be, J = jj, theta = th, I_ext = iext, I0 = i0, J_head = jh,
            w_head = None, I_head = []\<rparr>
   \<and> (N self < 0 \<or> delta_t self = 0 \<or> num_steps self < 1
        \<or> (0 < binary64 (delta_t self) \<and> binary64 (T self) < binary64 (delta_t self))
        \<or> (delta_t self < 0 \<and> 0 \<le> T self) \<longrightarrow>
        (\<exists>e. prepare env self iv gen = Inl e \<and> simulation env self iv gen = Inl e))
   \<and> (delta_t self = 0 \<longrightarrow> prepare env self iv gen = Inl ZeroDivisionError)
   \<and> (delta_t self \<noteq> 0 \<and> max_float < \<bar>float_truediv (T self) (delta_t self)\<bar> \<longrightarrow>
        prepare env self iv gen = Inl OverflowError)
   \<and> (delta_t self \<noteq> 0 \<and> \<bar>float_truediv (T self) (delta_t self)\<bar> \<le> max_float
        \<and> (N self < 0 \<or> num_steps self < 0
           \<or> 2 ^ 63 \<le> 8 * max 1 (num_steps self) * max 1 (N self)) \<longrightarrow>
        prepare env self iv gen = Inl ValueError)"
proof (intro conjI impI)
  show "init n dt ta tt rr r0 al be jj th i0 iext jh None xflag
     = Inr \<lparr>N = n, delta_t = dt, tau = ta, T = tt, R = rr, r_0 = r0, alpha = al,
            beta = be, J = jj, theta = th, I_ext = iext, I0 = i0, J_head = jh,
            w_head = None, I_head = []\<rparr>"
    by (simp add: init_def)
next
  assume a: "N self < 0 \<or> delta_t self = 0 \<or> num_steps self < 1
        \<or> (0 < binary64 (delta_t self) \<and> binary64 (T self) < binary64 (delta_t self))
        \<or> (delta_t self < 0 \<and> 0 \<le> T self)"
  have b: "N self < 0 \<or> delta_t self = 0 \<or> num_steps self < 1"
    using a num_steps_below_one [of self] num_steps_negative_delta_t [of self] by blast
  from prepare_rejects [OF b, where env = env and iv = iv and gen = gen]
  obtain e where e: "prepare env self iv gen = Inl e"
    by (rule exE)
  show "\<exists>e. prepare env self iv gen = Inl e \<and> simulation env self iv gen = Inl e"
    using e simulation_prepare_Inl [OF e] by (intro exI [of _ e]) simp
next
  assume "delta_t self = 0"
  then show "prepare env self iv gen = Inl ZeroDivisionError"
    by (rule prepare_zero_delta_t)
next
  assume "delta_t self \<noteq> 0 \<and> max_float < \<bar>float_truediv (T self) (delta_t self)\<bar>"
  then show "prepare env self iv gen = Inl OverflowError"
    using prepare_overflow [of self env iv gen] by simp
next
  assume "delta_t self \<noteq> 0 \<and> \<bar>float_truediv (T self) (delta_t self)\<bar> \<le> max_float
        \<and> (N self < 0 \<or> num_steps self < 0
           \<or> 2 ^ 63 \<le> 8 * max 1 (num_steps self) * max 1 (N self))"
  then show "prepare env self iv gen = Inl ValueError"
    using prepare_negative_dimension [of self env iv gen] by blast
qed

theorem invalid_configuration_rejected_before_loop_witness:
  "init 2 1 2 3 1 1 1 0 1 0 5 True 1 None True = Inr example_sim
   \<and> prepare example_env (example_sim\<lparr>delta_t := 0\<rparr>)
         (ZeroArg (uniform_voltage example_env example_sim)) 0 = Inl ZeroDivisionError
   \<and> prepare example_env (example_sim\<lparr>T := 2 ^ 600, delta_t := 1 / 2 ^ 600\<rparr>)
         (ZeroArg (uniform_voltage example_env example_sim)) 0 = Inl OverflowError
   \<and> prepare example_env (example_sim\<lparr>N := - 1\<rparr>)
         (ZeroArg (uniform_voltage example_env example_sim)) 0 = Inl ValueError
   \<and> (\<exists>e. prepare example_env (example_sim\<lparr>T := 1 / 2\<rparr>)
               (ZeroArg (uniform_voltage example_env example_sim)) 0 = Inl e
          \<and> simulation example_env (example_sim\<lparr>T := 1 / 2\<rparr>)
               (ZeroArg (uniform_voltage example_env example_sim)) 0 = Inl e)"
proof -
  let ?iv = "ZeroArg (uniform_voltage example_env example_sim)"
  have a: "init 2 1 2 3 1 1 1 0 1 0 5 True 1 None True = Inr example_sim"
    using invalid_configuration_rejected_before_loop
      [of 2 1 2 3 1 1 1 0 1 0 5 True 1 True example_sim example_env ?iv 0, THEN conjunct1]
    by (simp add: example_sim_def)
  have z: "delta_t (example_sim\<lparr>delta_t := 0\<rparr>) = 0"
    by simp
  have b: "prepare example_env (example_sim\<lparr>delta_t := 0\<rparr>) ?iv 0 = Inl ZeroDivisionError"
    by (rule invalid_configuration_rejected_before_loop
      [of 2 1 2 3 1 1 1 0 1 0 5 True 1 True "example_sim\<lparr>delta_t := 0\<rparr>" example_env ?iv 0,
       THEN conjunct2, THEN conjunct2, THEN conjunct1, THEN mp, OF z])
  let ?big = "example_sim\<lparr>T := 2 ^ 600, delta_t := 1 / 2 ^ 600\<rparr>"
  have "max_float < \<bar>float_truediv (T ?big) (delta_t ?big)\<bar>"
    by (rule example_overflow) simp_all
  then have o: "delta_t ?big \<noteq> 0 \<and> max_float < \<bar>float_truediv (T ?big) (delta_t ?big)\<bar>"
    by simp
  have v: "prepare example_env ?big ?iv 0 = Inl OverflowError"
    by (rule invalid_configuration_rejected_before_loop
      [of 2 1 2 3 1 1 1 0 1 0 5 True 1 True ?big example_env ?iv 0,
       THEN conjunct2, THEN conjunct2, THEN conjunct2, THEN conjunct1, THEN mp, OF o])
  have "\<bar>float_truediv (T (example_sim\<lparr>N := - 1\<rparr>)) (delta_t (example_sim\<lparr>N := - 1\<rparr>))\<bar>
      \<le> max_float"
    using max_float_large by (simp add: example_sim_def float_truediv_examples)
  then have n: "delta_t (example_sim\<lparr>N := - 1\<rparr>) \<noteq> 0
      \<and> \<bar>float_truediv (T (example_sim\<lparr>N := - 1\<rparr>)) (delta_t (example_sim\<lparr>N := - 1\<rparr>))\<bar>
          \<le> max_float
      \<and> (N (example_sim\<lparr>N := - 1\<rparr>) < 0 \<or> num_steps (example_sim\<lparr>N := - 1\<rparr>) < 0
         \<or> 2 ^ 63 \<le> 8 * max 1 (num_steps (example_sim\<lparr>N := - 1\<rparr>))
               * max 1 (N (example_sim\<lparr>N := - 1\<rparr>)))"
    by (simp add: example_sim_def)
  have c: "prepare example_env (example_sim\<lparr>N := - 1\<rparr>) ?iv 0 = Inl ValueError"
    by (rule invalid_configuration_rejected_before_loop
      [of 2 1 2 3 1 1 1 0 1 0 5 True 1 True "example_sim\<lparr>N := - 1\<rparr>" example_env ?iv 0,
       THEN conjunct2, THEN conjunct2, THEN conjunct2, THEN conjunct2, THEN mp, OF n])
  let ?half = "example_sim\<lparr>T := 1 / 2\<rparr>"
  have "0 < binary64 (delta_t ?half) \<and> binary64 (T ?half) < binary64 (delta_t ?half)"
    by (simp add: example_sim_def binary64_small_int)
  then have t: "N ?half < 0 \<or> delta_t ?half = 0 \<or> num_steps ?half < 1
      \<or> (0 < binary64 (delta_t ?half) \<and> binary64 (T ?half) < binary64 (delta_t ?half))
      \<or> (delta_t ?half < 0 \<and> 0 \<le> T ?half)"
    by blast
  have d: "\<exists>e. prepare example_env ?half ?iv 0 = Inl e
          \<and> simulation example_env ?half ?iv 0 = Inl e"
    by (rule invalid_configuration_rejected_before_loop
      [of 2 1 2 3 1 1 1 0 1 0 5 True 1 True ?half example_env ?iv 0,
       THEN conjunct2, THEN conjunct1, THEN mp, OF t])
  show ?thesis
    using a b v c d by blast
qed

text \<open>
  The claim as stated fails for \<open>tau \<le> 0\<close>. With \<open>tau = - 2\<close> the constructor accepts the
  configuration, and the run completes and returns its arrays. With \<open>tau = 0\<close> the
  constructor accepts the configuration and the preparation completes: the
  ZeroDivisionError is raised inside the loop, by the first call of \<open>update\<close>.
\<close>

theorem nonpositive_tau_counterexample:
  "tau example_negative_tau \<le> 0
   \<and> init 2 1 (- 2) 3 1 1 1 0 1 0 5 True 1 None True = Inr example_negative_tau
   \<and> simulation example_env example_negative_tau
        (ZeroArg (uniform_voltage example_env example_negative_tau)) 0
       = Inr (example_growth, [[1, 1], [1, 1], [1, 1]], example_growth, [[1, 1], [1, 1], [1, 1]])
   \<and> tau example_zero_tau \<le> 0
   \<and> init 2 1 0 3 1 1 1 0 1 0 5 True 1 None True = Inr example_zero_tau
   \<and> prepare example_env example_zero_tau
        (ZeroArg (uniform_voltage example_env example_zero_tau)) 0 = Inr (example_start, 8)
   \<and> simulation example_env example_zero_tau
        (ZeroArg (uniform_voltage example_env example_zero_tau)) 0 = Inl ZeroDivisionError"
proof -
  have l: "[0..<Suc (Suc 0)] = [0, Suc 0]"
    by (simp add: upt_rec)
  have a: "tau example_negative_tau \<le> 0" "tau example_zero_tau \<le> 0"
    "init 2 1 (- 2) 3 1 1 1 0 1 0 5 True 1 None True = Inr example_negative_tau"
    "init 2 1 0 3 1 1 1 0 1 0 5 True 1 None True = Inr example_zero_tau"
    by (simp_all add: example_negative_tau_def example_zero_tau_def example_sim_def init_def)
  have i: "initialize_simulation example_env example_negative_tau
     = Inr ([[0, 0], [0, 0], [0, 0]], [[0, 0], [0, 0], [0, 0]], [[0, 0], [0, 0], [0, 0]])"
    "initialize_simulation example_env example_zero_tau
     = Inr ([[0, 0], [0, 0], [0, 0]], [[0, 0], [0, 0], [0, 0]], [[0, 0], [0, 0], [0, 0]])"
    by (rule example_allocation;
        simp add: example_negative_tau_def example_zero_tau_def example_sim_def)+
  have b: "simulation example_env example_negative_tau
        (ZeroArg (uniform_voltage example_env example_negative_tau)) 0
       = Inr (example_growth, [[1, 1], [1, 1], [1, 1]], example_growth, [[1, 1], [1, 1], [1, 1]])"
    unfolding simulation_def simulation_state_def prepare_def i(1)
    by (simp add: py_truediv_def initialize_positions_def np_linspace_def
      first_step_update_def uniform_voltage_def np_random_uniform_def np_random_binomial_def
      set_row_def broadcast_to_def loop_body_def input_currents_def external_input_def
      two_population_recurrent_input_def broadcast2_def np_mean_def update_def update_rows_def
      example_env_def example_sim_def example_negative_tau_def example_growth_def
      numeral_2_eq_2 numeral_3_eq_3 l)
  have c: "prepare example_env example_zero_tau
        (ZeroArg (uniform_voltage example_env example_zero_tau)) 0 = Inr (example_start, 8)"
    unfolding prepare_def i(2)
    by (simp add: initialize_positions_def np_linspace_def
      first_step_update_def uniform_voltage_def np_random_uniform_def np_random_binomial_def
      set_row_def broadcast_to_def
      example_env_def example_sim_def example_zero_tau_def example_start_def
      numeral_2_eq_2 numeral_3_eq_3)
  have l2: "[0..<length (hR example_start) - Suc 0] = [0, 1]"
    by (simp add: example_start_def upt_rec)
  have d: "loop_body example_env example_zero_tau 0 example_start 8 = Inl ZeroDivisionError"
    by (simp add: loop_body_def input_currents_def external_input_def
      two_population_recurrent_input_def broadcast2_def np_mean_def update_def update_rows_def
      py_truediv_def example_sim_def example_zero_tau_def example_start_def)
  have e: "simulation example_env example_zero_tau
        (ZeroArg (uniform_voltage example_env example_zero_tau)) 0 = Inl ZeroDivisionError"
    by (simp add: simulation_def simulation_state_def c l2 d)
  show ?thesis
    using a b c e by blast
qed

end
